theory Spec2Isabelle
  imports Complex_Main "HOL-Library.Word"
begin

unbundle bit_operations_syntax

section \<open>Email template registration (utils/email: registerTemplates)\<close>

subsection \<open>Data\<close>

text \<open>
  A value thrown by a collaborator (a rejected promise of the repository, a failed shell
  command, a failed file read). JavaScript can throw any value; only its description is
  kept.
\<close>

datatype js_error = JsError string

text \<open>
  \<^verbatim>\<open>TemplateVariable\<close> is imported from the email schema; the fields are the ones the
  template definitions of the auth module fill in (\<^verbatim>\<open>id\<close>, \<^verbatim>\<open>type\<close>, \<^verbatim>\<open>label\<close>,
  \<^verbatim>\<open>required\<close>).
\<close>

record TemplateVariable =
  var_id :: string
  var_type :: string
  label :: string
  required :: bool

text \<open>\<^verbatim>\<open>interface TemplateMetadata\<close>; an optional field is an \<open>option\<close>.\<close>

record TemplateMetadata =
  name :: string
  description :: string
  subject :: string
  tags :: "string list"
  variables :: "TemplateVariable list"
  fromName :: "string option"
  fromEmail :: "string option"
  replyToEmail :: "string option"
  replyToName :: "string option"

text \<open>The \<^verbatim>\<open>content\<close> object of a definition: \<^verbatim>\<open>{ html: string; text?: string }\<close>.\<close>

record TemplateContent =
  html :: string
  text_part :: "string option"

text \<open>\<^verbatim>\<open>interface TemplateDefinition\<close>.\<close>

record TemplateDefinition =
  metadata :: TemplateMetadata
  content :: TemplateContent

text \<open>
  \<^verbatim>\<open>NewEmailTemplate\<close>, the record handed to \<^verbatim>\<open>createTemplate\<close>. Its fields are the ones
  the object literal in \<^verbatim>\<open>registerTemplates\<close> sets; they carry the prefix \<open>tpl_\<close> where
  the name is already a field of the metadata.
\<close>

record NewEmailTemplate =
  tpl_name :: string
  tpl_description :: string
  tpl_subject :: string
  bodyHtml :: string
  bodyText :: "string option"
  tpl_tags :: "string list"
  tpl_variables :: "TemplateVariable list"
  tpl_fromName :: "string option"
  tpl_fromEmail :: "string option"
  tpl_replyToEmail :: "string option"
  tpl_replyToName :: "string option"
  status :: string

text \<open>A stored template: the inserted fields plus the identifier the store generated.\<close>

record EmailTemplate = NewEmailTemplate +
  template_id :: string

text \<open>
  The structured context objects passed to the logger: \<^verbatim>\<open>{ tags, name }\<close> when a
  template is skipped, \<^verbatim>\<open>{ id, name, tags }\<close> when one was created and
  \<^verbatim>\<open>{ error, name, tags }\<close> in the catch handler.
\<close>

datatype log_context =
    SkipContext "string list" string
  | CreatedContext string string "string list"
  | FailedContext js_error string "string list"

text \<open>
  Every call the registrar makes on a collaborator, in the order it makes them: this is
  what a stub repository and a stub logger would record.
\<close>

datatype event =
    FindManyCall "string list" nat nat
  | CreateTemplateCall NewEmailTemplate
  | LogDebug log_context string
  | LogError log_context string

subsection \<open>Collaborators\<close>

text \<open>
  The repository (\<^verbatim>\<open>EmailTemplateRepository\<close>) is a parameter: any two operations on any
  store state \<open>'w\<close>. Each call returns the new state of the store together with either
  the value the awaited promise resolved to or the value it rejected with, so a
  repository may throw at any call and may answer differently from call to call.
  \<open>findMany\<close> takes the \<^verbatim>\<open>tags\<close> filter and the pagination's \<^verbatim>\<open>limit\<close> and \<^verbatim>\<open>offset\<close>.
\<close>

record 'w EmailTemplateRepository =
  findMany :: "string list \<Rightarrow> nat \<Rightarrow> nat \<Rightarrow> 'w \<Rightarrow> (js_error + EmailTemplate list) \<times> 'w"
  createTemplate :: "NewEmailTemplate \<Rightarrow> 'w \<Rightarrow> (js_error + EmailTemplate) \<times> 'w"

text \<open>
  The logger is optional (\<^verbatim>\<open>logger?: Logger\<close>, called as \<^verbatim>\<open>logger?.debug\<close> and
  \<^verbatim>\<open>logger?.error\<close>) and supplied by the caller: any two operations on the same state,
  each taking the context object and the message. A call returns normally or throws.
\<close>

record 'w Logger =
  debug :: "log_context \<Rightarrow> string \<Rightarrow> 'w \<Rightarrow> (js_error + unit) \<times> 'w"
  error :: "log_context \<Rightarrow> string \<Rightarrow> 'w \<Rightarrow> (js_error + unit) \<times> 'w"

subsection \<open>Effects\<close>

text \<open>
  A computation of the registrar runs on a store state and yields the value it returned
  or the value it threw, the collaborator calls it made, and the new store state.
\<close>

type_synonym ('w, 'a) io = "'w \<Rightarrow> (js_error + 'a) \<times> event list \<times> 'w"

definition io_return :: "'a \<Rightarrow> ('w, 'a) io" where
  "io_return x = (\<lambda>w. (Inr x, [], w))"

text \<open>Sequencing: a throw in the first computation skips the second.\<close>

definition io_bind :: "('w, 'a) io \<Rightarrow> ('a \<Rightarrow> ('w, 'b) io) \<Rightarrow> ('w, 'b) io" where
  "io_bind m f = (\<lambda>w.
     case m w of
       (Inl e, evs, w1) \<Rightarrow> (Inl e, evs, w1)
     | (Inr x, evs, w1) \<Rightarrow> (case f x w1 of (r, evs2, w2) \<Rightarrow> (r, evs @ evs2, w2)))"

text \<open>\<^verbatim>\<open>try { m } catch (error) { h(error) }\<close>.\<close>

definition try_catch :: "('w, 'a) io \<Rightarrow> (js_error \<Rightarrow> ('w, 'a) io) \<Rightarrow> ('w, 'a) io" where
  "try_catch m h = (\<lambda>w.
     case m w of
       (Inl e, evs, w1) \<Rightarrow> (case h e w1 of (r, evs2, w2) \<Rightarrow> (r, evs @ evs2, w2))
     | (Inr x, evs, w1) \<Rightarrow> (Inr x, evs, w1))"

text \<open>\<^verbatim>\<open>await templateRepo.findMany({ tags }, { pagination: { limit, offset } })\<close>.\<close>

definition call_findMany ::
  "'w EmailTemplateRepository \<Rightarrow> string list \<Rightarrow> nat \<Rightarrow> nat \<Rightarrow> ('w, EmailTemplate list) io" where
  "call_findMany templateRepo ts limit offset = (\<lambda>w.
     case findMany templateRepo ts limit offset w of
       (r, w1) \<Rightarrow> (r, [FindManyCall ts limit offset], w1))"

text \<open>\<^verbatim>\<open>await templateRepo.createTemplate(templateDef)\<close>.\<close>

definition call_createTemplate ::
  "'w EmailTemplateRepository \<Rightarrow> NewEmailTemplate \<Rightarrow> ('w, EmailTemplate) io" where
  "call_createTemplate templateRepo def = (\<lambda>w.
     case createTemplate templateRepo def w of
       (r, w1) \<Rightarrow> (r, [CreateTemplateCall def], w1))"

text \<open>
  \<^verbatim>\<open>logger?.debug(ctx, msg)\<close> and \<^verbatim>\<open>logger?.error(ctx, msg)\<close>: nothing without a logger;
  with one, the call is recorded and its outcome, a throw included, is the outcome of
  the expression.
\<close>

definition logger_debug :: "'w Logger option \<Rightarrow> log_context \<Rightarrow> string \<Rightarrow> ('w, unit) io" where
  "logger_debug logger ctx msg = (\<lambda>w.
     case logger of
       None \<Rightarrow> (Inr (), [], w)
     | Some l \<Rightarrow> (case debug l ctx msg w of (r, w1) \<Rightarrow> (r, [LogDebug ctx msg], w1)))"

definition logger_error :: "'w Logger option \<Rightarrow> log_context \<Rightarrow> string \<Rightarrow> ('w, unit) io" where
  "logger_error logger ctx msg = (\<lambda>w.
     case logger of
       None \<Rightarrow> (Inr (), [], w)
     | Some l \<Rightarrow> (case error l ctx msg w of (r, w1) \<Rightarrow> (r, [LogError ctx msg], w1)))"

subsection \<open>The registrar\<close>

text \<open>The object literal \<^verbatim>\<open>const templateDef: NewEmailTemplate = { ... }\<close>.\<close>

definition templateDef :: "TemplateDefinition \<Rightarrow> NewEmailTemplate" where
  "templateDef t =
     \<lparr> tpl_name = name (metadata t),
       tpl_description = description (metadata t),
       tpl_subject = subject (metadata t),
       bodyHtml = html (content t),
       bodyText = text_part (content t),
       tpl_tags = tags (metadata t),
       tpl_variables = variables (metadata t),
       tpl_fromName = fromName (metadata t),
       tpl_fromEmail = fromEmail (metadata t),
       tpl_replyToEmail = replyToEmail (metadata t),
       tpl_replyToName = replyToName (metadata t),
       status = ''active'' \<rparr>"

text \<open>
  The body of the \<^verbatim>\<open>for\<close> loop, for one definition: the \<^verbatim>\<open>try\<close> block with the
  existence check, the \<^verbatim>\<open>continue\<close> when a template is found, the insert, and the
  \<^verbatim>\<open>catch\<close> handler, whose \<^verbatim>\<open>logger?.error\<close> call is under no \<^verbatim>\<open>try\<close> of its own: a throw
  of the repository or of \<^verbatim>\<open>logger?.debug\<close> is caught, a throw of \<^verbatim>\<open>logger?.error\<close> leaves
  the body.
\<close>

definition registerTemplates_body ::
  "'w EmailTemplateRepository \<Rightarrow> 'w Logger option \<Rightarrow> TemplateDefinition \<Rightarrow> ('w, unit) io" where
  "registerTemplates_body templateRepo logger t =
     try_catch
       (io_bind (call_findMany templateRepo (tags (metadata t)) 1 0) (\<lambda>existing.
          if length existing > 0
          then logger_debug logger
                 (SkipContext (tags (metadata t)) (name (metadata t)))
                 ''Template already exists, skipping''
          else io_bind (call_createTemplate templateRepo (templateDef t)) (\<lambda>created.
                 logger_debug logger
                   (CreatedContext (template_id created) (tpl_name created) (tpl_tags created))
                   ''Email template registered'')))
       (\<lambda>error.
          logger_error logger
            (FailedContext error (name (metadata t)) (tags (metadata t)))
            ''Failed to register email template'')"

text \<open>
  \<^verbatim>\<open>for (const { metadata, content } of templates) { ... }\<close>: the definitions in order;
  a throw that left the body would leave the loop.
\<close>

fun registerTemplates_loop ::
  "'w EmailTemplateRepository \<Rightarrow> 'w Logger option \<Rightarrow> TemplateDefinition list \<Rightarrow>
   ('w, unit) io" where
  "registerTemplates_loop templateRepo logger [] = io_return ()"
| "registerTemplates_loop templateRepo logger (t # ts) =
     io_bind (registerTemplates_body templateRepo logger t)
       (\<lambda>_. registerTemplates_loop templateRepo logger ts)"

text \<open>
  \<^verbatim>\<open>registerTemplates(db, templates, logger)\<close>. The constructor call
  \<^verbatim>\<open>new EmailTemplateRepository(db, logger)\<close> is outside the \<^verbatim>\<open>try\<close>; the constructor is
  the parameter \<open>newRepository\<close>, which may throw.
\<close>

definition registerTemplates ::
  "('db \<Rightarrow> 'w Logger option \<Rightarrow> js_error + 'w EmailTemplateRepository) \<Rightarrow>
   'db \<Rightarrow> TemplateDefinition list \<Rightarrow> 'w Logger option \<Rightarrow> ('w, unit) io" where
  "registerTemplates newRepository db templates logger = (\<lambda>w.
     case newRepository db logger of
       Inl e \<Rightarrow> (Inl e, [], w)
     | Inr templateRepo \<Rightarrow> registerTemplates_loop templateRepo logger templates w)"

text \<open>The records handed to \<^verbatim>\<open>createTemplate\<close> in a sequence of calls, in order.\<close>

fun created_templates :: "event list \<Rightarrow> NewEmailTemplate list" where
  "created_templates [] = []"
| "created_templates (CreateTemplateCall r # evs) = r # created_templates evs"
| "created_templates (_ # evs) = created_templates evs"

text \<open>The queries handed to \<^verbatim>\<open>findMany\<close> in a sequence of calls, in order.\<close>

fun findMany_queries :: "event list \<Rightarrow> (string list \<times> nat \<times> nat) list" where
  "findMany_queries [] = []"
| "findMany_queries (FindManyCall ts limit offset # evs) = (ts, limit, offset) # findMany_queries evs"
| "findMany_queries (_ # evs) = findMany_queries evs"


subsection \<open>Conditions on the logger\<close>

text \<open>The \<^verbatim>\<open>error\<close> method of the logger, when there is a logger, returns normally.\<close>

definition error_returns :: "'w Logger option \<Rightarrow> bool" where
  "error_returns logger =
     (case logger of
        None \<Rightarrow> True
      | Some l \<Rightarrow> (\<forall>ctx msg w. fst (error l ctx msg w) = Inr ()))"


subsection \<open>A repository over a table in memory\<close>

text \<open>
  Modelled from the spec: the template repository (\<^verbatim>\<open>EmailTemplateRepository\<close> in
  handlers/email/repos/template.repo) is not part of the sources at hand. The spec gives
  its contract: \<^verbatim>\<open>findMany(filter: {tags}, {pagination: {limit, offset}})\<close> returns the
  stored records whose tag set matches the filter, and \<^verbatim>\<open>createTemplate(record)\<close> stores
  the record and returns it with a generated identifier. The store is the list of its
  rows in insertion order. What it means for a stored tag list to match a queried one is
  the parameter \<open>matches\<close> (first argument the query, second the stored tags); the
  identifier generator is the parameter \<open>new_id\<close>.
\<close>

text \<open>
  Modelled from the spec: the row the missing repository stores for a record, which
  mirrors the record and adds the identifier.
\<close>

definition stored_template :: "NewEmailTemplate \<Rightarrow> string \<Rightarrow> EmailTemplate" where
  "stored_template def ident =
     \<lparr> tpl_name = tpl_name def,
       tpl_description = tpl_description def,
       tpl_subject = tpl_subject def,
       bodyHtml = bodyHtml def,
       bodyText = bodyText def,
       tpl_tags = tpl_tags def,
       tpl_variables = tpl_variables def,
       tpl_fromName = tpl_fromName def,
       tpl_fromEmail = tpl_fromEmail def,
       tpl_replyToEmail = tpl_replyToEmail def,
       tpl_replyToName = tpl_replyToName def,
       status = status def,
       template_id = ident \<rparr>"

text \<open>
  Modelled from the spec: \<^verbatim>\<open>findMany\<close> of the missing repository returns the rows whose tags
  match the filter, in insertion order, cut by the pagination; it changes nothing.
\<close>

definition memory_findMany ::
  "(string list \<Rightarrow> string list \<Rightarrow> bool) \<Rightarrow> string list \<Rightarrow> nat \<Rightarrow> nat \<Rightarrow>
   EmailTemplate list \<Rightarrow> (js_error + EmailTemplate list) \<times> EmailTemplate list" where
  "memory_findMany matches q limit offset rows =
     (Inr (take limit (drop offset (filter (\<lambda>r. matches q (tpl_tags r)) rows))), rows)"

text \<open>
  Modelled from the spec: \<^verbatim>\<open>createTemplate\<close> of the missing repository appends the record
  with a generated identifier and returns the stored row.
\<close>

definition memory_createTemplate ::
  "(EmailTemplate list \<Rightarrow> string) \<Rightarrow> NewEmailTemplate \<Rightarrow>
   EmailTemplate list \<Rightarrow> (js_error + EmailTemplate) \<times> EmailTemplate list" where
  "memory_createTemplate new_id def rows =
     (Inr (stored_template def (new_id rows)), rows @ [stored_template def (new_id rows)])"

text \<open>Modelled from the spec: the missing repository, as the pair of the two operations.\<close>

definition memory_repository ::
  "(string list \<Rightarrow> string list \<Rightarrow> bool) \<Rightarrow> (EmailTemplate list \<Rightarrow> string) \<Rightarrow>
   EmailTemplate list EmailTemplateRepository" where
  "memory_repository matches new_id =
     \<lparr> findMany = memory_findMany matches, createTemplate = memory_createTemplate new_id \<rparr>"

text \<open>Matching by equality of the tag sets, and identifiers numbered by row count.\<close>

definition same_tag_set :: "string list \<Rightarrow> string list \<Rightarrow> bool" where
  "same_tag_set q ts = (set q = set ts)"

definition row_count_id :: "EmailTemplate list \<Rightarrow> string" where
  "row_count_id rows = replicate (length rows) CHR ''i''"

subsection \<open>Example inputs\<close>

text \<open>
  A repository whose queries succeed on an empty result and whose inserts always throw,
  and one whose queries always throw; their state counts the calls.
\<close>

definition insert_failing_repository :: "nat EmailTemplateRepository" where
  "insert_failing_repository =
     \<lparr> findMany = (\<lambda>q limit offset n. (Inr [], Suc n)),
       createTemplate = (\<lambda>def n. (Inl (JsError ''insert failed''), Suc n)) \<rparr>"

definition query_failing_repository :: "nat EmailTemplateRepository" where
  "query_failing_repository =
     \<lparr> findMany = (\<lambda>q limit offset n. (Inl (JsError ''query failed''), Suc n)),
       createTemplate = (\<lambda>def n. (Inl (JsError ''insert failed''), Suc n)) \<rparr>"

text \<open>Constructors that return these repositories, whatever the handle and the logger.\<close>

definition new_insert_failing ::
  "unit \<Rightarrow> nat Logger option \<Rightarrow> js_error + nat EmailTemplateRepository" where
  "new_insert_failing db logger = Inr insert_failing_repository"

definition new_query_failing ::
  "unit \<Rightarrow> nat Logger option \<Rightarrow> js_error + nat EmailTemplateRepository" where
  "new_query_failing db logger = Inr query_failing_repository"

text \<open>
  A logger whose calls return, one whose \<^verbatim>\<open>error\<close> throws, and one whose \<^verbatim>\<open>debug\<close>
  throws.
\<close>

definition silent_logger :: "'w Logger" where
  "silent_logger =
     \<lparr> debug = (\<lambda>ctx msg w. (Inr (), w)), error = (\<lambda>ctx msg w. (Inr (), w)) \<rparr>"

definition error_throwing_logger :: "'w Logger" where
  "error_throwing_logger =
     \<lparr> debug = (\<lambda>ctx msg w. (Inr (), w)),
       error = (\<lambda>ctx msg w. (Inl (JsError ''logger failed''), w)) \<rparr>"

definition debug_throwing_logger :: "'w Logger" where
  "debug_throwing_logger =
     \<lparr> debug = (\<lambda>ctx msg w. (Inl (JsError ''debug failed''), w)),
       error = (\<lambda>ctx msg w. (Inr (), w)) \<rparr>"

text \<open>
  Definitions shaped like the entries of \<^verbatim>\<open>AUTH_TEMPLATES\<close>; the last one reuses the tag
  of the first with another subject and body.
\<close>

definition verify_definition :: TemplateDefinition where
  "verify_definition =
     \<lparr> metadata =
         \<lparr> name = ''Email Verification'',
           description = ''Email verification template for new user registration'',
           subject = ''Verify your email address'',
           tags = [''auth.email-verify''],
           variables =
             [\<lparr> var_id = ''name'', var_type = ''string'', label = ''Recipient Name'',
                required = True \<rparr>],
           fromName = None, fromEmail = None, replyToEmail = None, replyToName = None \<rparr>,
       content = \<lparr> html = ''<p>verify</p>'', text_part = Some ''verify'' \<rparr> \<rparr>"

definition reset_definition :: TemplateDefinition where
  "reset_definition =
     \<lparr> metadata =
         \<lparr> name = ''Password Reset'',
           description = ''Password reset request template'',
           subject = ''Reset your password'',
           tags = [''auth.password-reset''],
           variables =
             [\<lparr> var_id = ''resetLink'', var_type = ''url'', label = ''Reset Link'',
                required = True \<rparr>],
           fromName = None, fromEmail = None, replyToEmail = None, replyToName = None \<rparr>,
       content = \<lparr> html = ''<p>reset</p>'', text_part = Some ''reset'' \<rparr> \<rparr>"

definition verify_definition_v2 :: TemplateDefinition where
  "verify_definition_v2 =
     \<lparr> metadata =
         \<lparr> name = ''Email Verification'',
           description = ''Email verification template for new user registration'',
           subject = ''Please confirm your email'',
           tags = [''auth.email-verify''],
           variables = [],
           fromName = None, fromEmail = None, replyToEmail = None, replyToName = None \<rparr>,
       content = \<lparr> html = ''<p>confirm</p>'', text_part = None \<rparr> \<rparr>"

section \<open>Build constants (the API build script)\<close>

subsection \<open>JavaScript strings and JSON values\<close>

text \<open>
  A JavaScript string is a sequence of UTF-16 code units. \<open>js\<close> turns an ASCII literal
  into one.
\<close>

type_synonym code_unit = "16 word"
type_synonym jsstring = "code_unit list"

definition js :: "string \<Rightarrow> jsstring" where
  "js s = map of_char s"

text \<open>
  \<^verbatim>\<open>String.prototype.trim\<close> strips the white space and line terminator code points of
  ECMAScript from both ends.
\<close>

definition is_trim_space :: "code_unit \<Rightarrow> bool" where
  "is_trim_space c \<longleftrightarrow>
     (0x09 \<le> c \<and> c \<le> 0x0D) \<or> c = 0x20 \<or> c = 0xA0 \<or> c = 0x1680 \<or>
     (0x2000 \<le> c \<and> c \<le> 0x200A) \<or> c = 0x2028 \<or> c = 0x2029 \<or> c = 0x202F \<or>
     c = 0x205F \<or> c = 0x3000 \<or> c = 0xFEFF"

definition trim :: "jsstring \<Rightarrow> jsstring" where
  "trim s = rev (dropWhile is_trim_space (rev (dropWhile is_trim_space s)))"

text \<open>
  The numbers \<^verbatim>\<open>JSON.parse\<close> can produce: a finite double (a rational), negative zero
  and the two infinities (from a literal too large for a double).
\<close>

datatype js_number = Finite rat | NegativeZero | PositiveInfinity | NegativeInfinity

text \<open>
  A value produced by \<^verbatim>\<open>JSON.parse\<close>. An object is the list of its own properties in
  creation order.
\<close>

datatype json =
    JNull
  | JBool bool
  | JNumber js_number
  | JString jsstring
  | JArray "json list"
  | JObject "(jsstring \<times> json) list"

text \<open>
  \<^verbatim>\<open>value.key\<close> for a key that no prototype defines (such as \<^verbatim>\<open>version\<close>): a TypeError on
  \<^verbatim>\<open>null\<close>, the own property of an object, and \<^verbatim>\<open>undefined\<close> (\<open>None\<close>) otherwise.
\<close>

fun get_property :: "json \<Rightarrow> jsstring \<Rightarrow> js_error + json option" where
  "get_property JNull key = Inl (JsError ''TypeError: null is not an object'')"
| "get_property (JObject props) key = Inr (map_of props key)"
| "get_property _ key = Inr None"

text \<open>\<^verbatim>\<open>ToBoolean\<close>, as \<^verbatim>\<open>||\<close> applies it; \<open>None\<close> is \<^verbatim>\<open>undefined\<close>.\<close>

fun truthy :: "json option \<Rightarrow> bool" where
  "truthy None = False"
| "truthy (Some JNull) = False"
| "truthy (Some (JBool b)) = b"
| "truthy (Some (JNumber n)) = (n \<noteq> Finite 0 \<and> n \<noteq> NegativeZero)"
| "truthy (Some (JString s)) = (s \<noteq> [])"
| "truthy (Some (JArray xs)) = True"
| "truthy (Some (JObject props)) = True"

text \<open>\<^verbatim>\<open>a || b\<close> for a right operand that is a value.\<close>

definition or_else :: "json option \<Rightarrow> json \<Rightarrow> json" where
  "or_else a b = (case a of None \<Rightarrow> b | Some v \<Rightarrow> if truthy (Some v) then v else b)"

subsection \<open>Results of fallible calls\<close>

definition bind_result :: "js_error + 'a \<Rightarrow> ('a \<Rightarrow> js_error + 'b) \<Rightarrow> js_error + 'b" where
  "bind_result m f = (case m of Inl e \<Rightarrow> Inl e | Inr x \<Rightarrow> f x)"

text \<open>\<^verbatim>\<open>try { m } catch (error) { h(error) }\<close> without state.\<close>

definition catch_result :: "js_error + 'a \<Rightarrow> (js_error \<Rightarrow> js_error + 'a) \<Rightarrow> js_error + 'a" where
  "catch_result m h = (case m of Inl e \<Rightarrow> h e | Inr x \<Rightarrow> Inr x)"

subsection \<open>The environment of a build\<close>

text \<open>
  What the script reads from outside: whether \<^verbatim>\<open>existsSync('.git')\<close> holds, the outcome of
  the two git commands (\<^verbatim>\<open>$`...`.text()\<close> rejects when the command fails), the outcome
  of reading package.json (\<^verbatim>\<open>readFileSync\<close> throws when it cannot), the platform's
  \<^verbatim>\<open>JSON.parse\<close> (a SyntaxError on a text that is not JSON), the two renderings of the
  current time and \<^verbatim>\<open>Bun.version\<close>. The two lookups test for \<^verbatim>\<open>.git\<close> one right after the
  other, before either awaits, and see the same answer. What the console prints is not
  modelled; a throw while a printed line is built is.
\<close>

record build_env =
  git_dir_exists :: bool
  git_rev_parse_HEAD :: "js_error + jsstring"
  git_rev_parse_abbrev_ref_HEAD :: "js_error + jsstring"
  readFileSync_package_json :: "js_error + jsstring"
  JSON_parse :: "jsstring \<Rightarrow> js_error + json"
  toLocaleString_now :: jsstring
  toISOString_now :: jsstring
  Bun_version :: jsstring

subsection \<open>The generator\<close>

text \<open>
  \<^verbatim>\<open>interface BuildConstants\<close> declares six strings. \<^verbatim>\<open>getPackageVersion\<close> returns
  \<^verbatim>\<open>packageJson.version || '0.0.0'\<close>, which is whatever truthy value the manifest holds, so
  the type of the version field is a parameter: \<open>json\<close> where the generator fills the
  record, \<open>jsstring\<close> where the declared interface is taken at its word.
\<close>

record 'v BuildConstants_of =
  BUILD_VERSION :: 'v
  BUILD_TIME :: jsstring
  BUILD_TIMESTAMP :: jsstring
  GIT_COMMIT :: jsstring
  GIT_BRANCH :: jsstring
  COMPILER_VERSION :: jsstring

type_synonym BuildConstants = "jsstring BuildConstants_of"

definition getCurrentTimestamp :: "build_env \<Rightarrow> jsstring" where
  "getCurrentTimestamp env = toISOString_now env"

definition getBuildTime :: "build_env \<Rightarrow> jsstring" where
  "getBuildTime env = toLocaleString_now env"

definition getGitCommit :: "build_env \<Rightarrow> js_error + jsstring" where
  "getGitCommit env =
     catch_result
       (if \<not> git_dir_exists env then Inr (js ''unknown'')
        else bind_result (git_rev_parse_HEAD env) (\<lambda>result. Inr (trim result)))
       (\<lambda>error. Inr (js ''unknown''))"

definition getGitBranch :: "build_env \<Rightarrow> js_error + jsstring" where
  "getGitBranch env =
     catch_result
       (if \<not> git_dir_exists env then Inr (js ''unknown'')
        else bind_result (git_rev_parse_abbrev_ref_HEAD env) (\<lambda>result. Inr (trim result)))
       (\<lambda>error. Inr (js ''unknown''))"

definition getPackageVersion :: "build_env \<Rightarrow> js_error + json" where
  "getPackageVersion env =
     catch_result
       (bind_result (readFileSync_package_json env) (\<lambda>contents.
        bind_result (JSON_parse env contents) (\<lambda>packageJson.
        bind_result (get_property packageJson (js ''version'')) (\<lambda>version.
          Inr (or_else version (JString (js ''0.0.0'')))))))
       (\<lambda>error. Inr (JString (js ''0.0.0'')))"

definition getCompilerVersion :: "build_env \<Rightarrow> jsstring" where
  "getCompilerVersion env = Bun_version env"

text \<open>
  The template literal of \<^verbatim>\<open>console.log(`   Version: ${constants.BUILD_VERSION}`)\<close>
  converts the version to a string. For a value that came out of \<^verbatim>\<open>JSON.parse\<close> the
  conversion throws a TypeError exactly when it meets an object with an own
  \<^verbatim>\<open>toString\<close> property: the property hides \<^verbatim>\<open>Object.prototype.toString\<close>, is not
  callable, and \<^verbatim>\<open>valueOf\<close> gives no primitive. An array converts its elements in turn
  (\<^verbatim>\<open>null\<close> as the empty string); every other value converts.
\<close>

fun unprintable :: "json \<Rightarrow> bool" where
  "unprintable (JObject props) = (map_of props (js ''toString'') \<noteq> None)"
| "unprintable (JArray xs) = list_ex unprintable xs"
| "unprintable _ = False"

text \<open>
  The outcome of the conversion; the string it yields goes to the console, which is not
  modelled.
\<close>

definition ToString_outcome :: "json \<Rightarrow> js_error + unit" where
  "ToString_outcome v =
     (if unprintable v then Inl (JsError ''TypeError: cannot convert object to primitive value'')
      else Inr ())"

text \<open>
  \<^verbatim>\<open>generateBuildConstants\<close>: \<^verbatim>\<open>Promise.all\<close> over the two git lookups rejects when one of
  them rejects; the lookups read the environment only, so the order in which they
  settle does not show. After the record is built the summary is printed; of the four
  lines only the one with the version can throw (the others print strings), and it is
  under no \<^verbatim>\<open>try\<close>.
\<close>

definition generateBuildConstants :: "build_env \<Rightarrow> js_error + json BuildConstants_of" where
  "generateBuildConstants env =
     bind_result (getGitCommit env) (\<lambda>gitCommit.
     bind_result (getGitBranch env) (\<lambda>gitBranch.
     bind_result (getPackageVersion env) (\<lambda>version.
       (let constants =
              \<lparr> BUILD_VERSION = version,
                BUILD_TIME = getBuildTime env,
                BUILD_TIMESTAMP = getCurrentTimestamp env,
                GIT_COMMIT = gitCommit,
                GIT_BRANCH = gitBranch,
                COMPILER_VERSION = getCompilerVersion env \<rparr>
        in bind_result (ToString_outcome (BUILD_VERSION constants)) (\<lambda>_. Inr constants)))))"

subsection \<open>Define arguments\<close>

text \<open>
  \<^verbatim>\<open>JSON.stringify\<close> of a string (ECMAScript's QuoteJSONString): the short escapes, a
  \<^verbatim>\<open>\uXXXX\<close> escape in lower-case hexadecimal for the other control characters and for
  a surrogate that is not part of a pair, every other code unit as it is.
\<close>

definition hex_digit :: "code_unit \<Rightarrow> code_unit" where
  "hex_digit n = (if n < 10 then 0x30 + n else 0x61 + (n - 10))"

definition UnicodeEscape :: "code_unit \<Rightarrow> jsstring" where
  "UnicodeEscape c =
     [0x5C, 0x75,
      hex_digit (drop_bit 12 c AND 0xF), hex_digit (drop_bit 8 c AND 0xF),
      hex_digit (drop_bit 4 c AND 0xF), hex_digit (c AND 0xF)]"

definition is_leading_surrogate :: "code_unit \<Rightarrow> bool" where
  "is_leading_surrogate c \<longleftrightarrow> 0xD800 \<le> c \<and> c \<le> 0xDBFF"

definition is_trailing_surrogate :: "code_unit \<Rightarrow> bool" where
  "is_trailing_surrogate c \<longleftrightarrow> 0xDC00 \<le> c \<and> c \<le> 0xDFFF"

definition quote_unit :: "code_unit \<Rightarrow> jsstring" where
  "quote_unit c =
     (if c = 0x08 then [0x5C, 0x62]
      else if c = 0x09 then [0x5C, 0x74]
      else if c = 0x0A then [0x5C, 0x6E]
      else if c = 0x0C then [0x5C, 0x66]
      else if c = 0x0D then [0x5C, 0x72]
      else if c = 0x22 then [0x5C, 0x22]
      else if c = 0x5C then [0x5C, 0x5C]
      else if c < 0x20 \<or> is_trailing_surrogate c then UnicodeEscape c
      else [c])"

fun quote_units :: "jsstring \<Rightarrow> jsstring" where
  "quote_units [] = []"
| "quote_units [c] = (if is_leading_surrogate c then UnicodeEscape c else quote_unit c)"
| "quote_units (c # d # cs) =
     (if is_leading_surrogate c
      then (if is_trailing_surrogate d then c # d # quote_units cs
            else UnicodeEscape c @ quote_units (d # cs))
      else quote_unit c @ quote_units (d # cs))"

definition JSON_stringify :: "jsstring \<Rightarrow> jsstring" where
  "JSON_stringify v = [0x22] @ quote_units v @ [0x22]"

text \<open>\<^verbatim>\<open>Object.entries(constants)\<close>: the properties in the order the object literal sets them.\<close>

definition Object_entries :: "BuildConstants \<Rightarrow> (jsstring \<times> jsstring) list" where
  "Object_entries constants =
     [(js ''BUILD_VERSION'', BUILD_VERSION constants),
      (js ''BUILD_TIME'', BUILD_TIME constants),
      (js ''BUILD_TIMESTAMP'', BUILD_TIMESTAMP constants),
      (js ''GIT_COMMIT'', GIT_COMMIT constants),
      (js ''GIT_BRANCH'', GIT_BRANCH constants),
      (js ''COMPILER_VERSION'', COMPILER_VERSION constants)]"

text \<open>\<^verbatim>\<open>constantsToDefineArgs\<close>: each entry pushes two arguments.\<close>

definition constantsToDefineArgs :: "BuildConstants \<Rightarrow> jsstring list" where
  "constantsToDefineArgs constants =
     foldl (\<lambda>args (key, v). args @ [js ''--define'', key @ js ''='' @ JSON_stringify v])
       [] (Object_entries constants)"

subsection \<open>Reading define arguments back\<close>

text \<open>
  The reader the round-trip property speaks of follows the spec's words: the arguments
  come in pairs of \<^verbatim>\<open>--define\<close> and \<^verbatim>\<open>KEY=JSON_VALUE\<close>, each pair is split at its first
  \<^verbatim>\<open>=\<close>, and the value is decoded as JSON. \<open>JSON_parse_string\<close> is \<^verbatim>\<open>JSON.parse\<close> on the
  texts that are one string literal (white space around it allowed); it rejects every
  other text.
\<close>

definition hex_value :: "code_unit \<Rightarrow> code_unit option" where
  "hex_value c =
     (if 0x30 \<le> c \<and> c \<le> 0x39 then Some (c - 0x30)
      else if 0x61 \<le> c \<and> c \<le> 0x66 then Some (c - 0x61 + 10)
      else if 0x41 \<le> c \<and> c \<le> 0x46 then Some (c - 0x41 + 10)
      else None)"

definition hex4 :: "code_unit \<Rightarrow> code_unit \<Rightarrow> code_unit \<Rightarrow> code_unit \<Rightarrow> code_unit option" where
  "hex4 a b c d =
     (case (hex_value a, hex_value b, hex_value c, hex_value d) of
        (Some x, Some y, Some z, Some w) \<Rightarrow>
          Some (push_bit 12 x OR push_bit 8 y OR push_bit 4 z OR w)
      | _ \<Rightarrow> None)"

definition simple_escape :: "code_unit \<Rightarrow> code_unit option" where
  "simple_escape e =
     (if e = 0x22 then Some 0x22
      else if e = 0x5C then Some 0x5C
      else if e = 0x2F then Some 0x2F
      else if e = 0x62 then Some 0x08
      else if e = 0x66 then Some 0x0C
      else if e = 0x6E then Some 0x0A
      else if e = 0x72 then Some 0x0D
      else if e = 0x74 then Some 0x09
      else None)"

definition cons_unit :: "code_unit \<Rightarrow> (jsstring \<times> jsstring) option \<Rightarrow> (jsstring \<times> jsstring) option" where
  "cons_unit c r = (case r of None \<Rightarrow> None | Some (s, rest) \<Rightarrow> Some (c # s, rest))"

text \<open>
  The characters of a string literal after its opening quote: the decoded string and
  the text after the closing quote.
\<close>

fun parse_string_chars :: "jsstring \<Rightarrow> (jsstring \<times> jsstring) option" where
  "parse_string_chars [] = None"
| "parse_string_chars (c # cs) =
     (if c = 0x22 then Some ([], cs)
      else if c = 0x5C then
        (case cs of
           [] \<Rightarrow> None
         | e # es \<Rightarrow>
             if e = 0x75 then
               (case es of
                  h1 # h2 # h3 # h4 # rest \<Rightarrow>
                    (case hex4 h1 h2 h3 h4 of
                       None \<Rightarrow> None
                     | Some u \<Rightarrow> cons_unit u (parse_string_chars rest))
                | _ \<Rightarrow> None)
             else
               (case simple_escape e of
                  None \<Rightarrow> None
                | Some u \<Rightarrow> cons_unit u (parse_string_chars es)))
      else if c < 0x20 then None
      else cons_unit c (parse_string_chars cs))"

definition is_json_space :: "code_unit \<Rightarrow> bool" where
  "is_json_space c \<longleftrightarrow> c = 0x20 \<or> c = 0x09 \<or> c = 0x0A \<or> c = 0x0D"

definition JSON_parse_string :: "jsstring \<Rightarrow> jsstring option" where
  "JSON_parse_string txt =
     (case dropWhile is_json_space txt of
        [] \<Rightarrow> None
      | q # cs \<Rightarrow>
          if q = 0x22 then
            (case parse_string_chars cs of
               None \<Rightarrow> None
             | Some (s, rest) \<Rightarrow> if dropWhile is_json_space rest = [] then Some s else None)
          else None)"

definition split_first_equals :: "jsstring \<Rightarrow> (jsstring \<times> jsstring) option" where
  "split_first_equals kv =
     (case dropWhile (\<lambda>c. c \<noteq> 0x3D) kv of
        [] \<Rightarrow> None
      | _ # v \<Rightarrow> Some (takeWhile (\<lambda>c. c \<noteq> 0x3D) kv, v))"

fun parseDefineArgs :: "jsstring list \<Rightarrow> (jsstring \<times> jsstring) list option" where
  "parseDefineArgs [] = Some []"
| "parseDefineArgs [flag] = None"
| "parseDefineArgs (flag # kv # args) =
     (if flag \<noteq> js ''--define'' then None
      else case split_first_equals kv of
             None \<Rightarrow> None
           | Some (key, txt) \<Rightarrow>
               (case JSON_parse_string txt of
                  None \<Rightarrow> None
                | Some v \<Rightarrow>
                    (case parseDefineArgs args of
                       None \<Rightarrow> None
                     | Some entries \<Rightarrow> Some ((key, v) # entries))))"

subsection \<open>Example environments\<close>

definition example_env :: build_env where
  "example_env =
     \<lparr> git_dir_exists = True,
       git_rev_parse_HEAD = Inr (js ''0a1b2c3d4e5f'' @ [0x0A]),
       git_rev_parse_abbrev_ref_HEAD = Inr (js ''main'' @ [0x0A]),
       readFileSync_package_json = Inr (js ''{}''),
       JSON_parse = (\<lambda>txt. if txt = js ''{}'' then Inr (JObject [])
                              else Inl (JsError ''SyntaxError'')),
       toLocaleString_now = js ''November 3, 2026 at 07:22:00 AM UTC'',
       toISOString_now = js ''2026-11-03T07:22:00.000Z'',
       Bun_version = js ''1.2.0'' \<rparr>"

section \<open>Properties of the registrar\<close>

subsection \<open>Traces, the loop body and the loop\<close>

lemma created_templates_append:
  "created_templates (xs @ ys) = created_templates xs @ created_templates ys"
  by (induction xs rule: created_templates.induct) simp_all

lemma findMany_queries_append:
  "findMany_queries (xs @ ys) = findMany_queries xs @ findMany_queries ys"
  by (induction xs rule: findMany_queries.induct) simp_all


lemma logger_debug_trace:
  "created_templates (fst (snd (logger_debug logger ctx msg w))) = []"
  "findMany_queries (fst (snd (logger_debug logger ctx msg w))) = []"
  by (simp_all add: logger_debug_def split: option.splits prod.splits)

lemma logger_error_trace:
  "created_templates (fst (snd (logger_error logger ctx msg w))) = []"
  "findMany_queries (fst (snd (logger_error logger ctx msg w))) = []"
  by (simp_all add: logger_error_def split: option.splits prod.splits)

lemma logger_error_returns:
  assumes "error_returns logger"
  shows "fst (logger_error logger ctx msg w) = Inr ()"
proof (cases logger)
  case None
  then show ?thesis by (simp add: logger_error_def)
next
  case (Some l)
  with assms have "fst (error l ctx msg w) = Inr ()" by (simp add: error_returns_def)
  with Some show ?thesis by (cases "error l ctx msg w") (simp add: logger_error_def)
qed


lemmas body_defs =
  registerTemplates_body_def io_bind_def io_return_def try_catch_def
  call_findMany_def call_createTemplate_def logger_debug_def logger_error_def

lemma body_created:
  "created_templates (fst (snd (registerTemplates_body templateRepo logger t w))) =
     (if fst (findMany templateRepo (tags (metadata t)) 1 0 w) = Inr [] then [templateDef t] else [])"
  by (auto simp add: body_defs split: prod.splits sum.splits option.splits)

lemma body_queries:
  "findMany_queries (fst (snd (registerTemplates_body templateRepo logger t w))) =
     [(tags (metadata t), 1, 0)]"
  by (auto simp add: body_defs split: prod.splits sum.splits option.splits)

lemma try_catch_returns:
  assumes "\<And>e w1. fst (h e w1) = Inr ()"
  shows "fst (try_catch m h w) = Inr ()"
proof (cases "m w")
  case (fields r evs w1)
  show ?thesis
  proof (cases r)
    case (Inl e)
    obtain r2 evs2 w2 where h: "h e w1 = (r2, evs2, w2)" by (cases "h e w1") auto
    with assms [of e w1] have "r2 = Inr ()" by simp
    with fields Inl h show ?thesis by (simp add: try_catch_def)
  next
    case (Inr y)
    with fields show ?thesis by (simp add: try_catch_def)
  qed
qed

lemma body_returns:
  assumes "error_returns logger"
  shows "fst (registerTemplates_body templateRepo logger t w) = Inr ()"
  unfolding registerTemplates_body_def
  by (rule try_catch_returns) (rule logger_error_returns [OF assms])

lemma loop_Cons:
  assumes "registerTemplates_body templateRepo logger t w = (Inr (), evs, w1)"
    and "registerTemplates_loop templateRepo logger ts w1 = (r2, evs2, w2)"
  shows "registerTemplates_loop templateRepo logger (t # ts) w = (r2, evs @ evs2, w2)"
  using assms by (simp add: io_bind_def)

lemma loop_Cons_thrown:
  assumes "registerTemplates_body templateRepo logger t w = (Inl e, evs, w1)"
  shows "registerTemplates_loop templateRepo logger (t # ts) w = (Inl e, evs, w1)"
  using assms by (simp add: io_bind_def)

lemma loop_single:
  assumes "registerTemplates_body templateRepo logger t w = (r, evs, w1)"
  shows "registerTemplates_loop templateRepo logger [t] w = (r, evs, w1)"
  using assms by (cases r) (simp_all add: io_bind_def io_return_def)

lemma loop_append:
  assumes "registerTemplates_loop templateRepo logger xs w = (Inr (), evs, w1)"
    and "registerTemplates_loop templateRepo logger ys w1 = (r2, evs2, w2)"
  shows "registerTemplates_loop templateRepo logger (xs @ ys) w = (r2, evs @ evs2, w2)"
  using assms
proof (induction xs arbitrary: w evs)
  case Nil
  then show ?case by (simp add: io_return_def)
next
  case (Cons t xs)
  obtain rb eb wb where b: "registerTemplates_body templateRepo logger t w = (rb, eb, wb)"
    by (cases "registerTemplates_body templateRepo logger t w") auto
  show ?case
  proof (cases rb)
    case (Inl e)
    with b Cons.prems(1) show ?thesis by (simp add: io_bind_def)
  next
    case (Inr u)
    with b have b': "registerTemplates_body templateRepo logger t w = (Inr (), eb, wb)" by simp
    obtain rl el wl where l: "registerTemplates_loop templateRepo logger xs wb = (rl, el, wl)"
      by (cases "registerTemplates_loop templateRepo logger xs wb") auto
    from loop_Cons [OF b' l] Cons.prems(1)
    have eq: "rl = Inr ()" "evs = eb @ el" "w1 = wl" by simp_all
    with l have l': "registerTemplates_loop templateRepo logger xs wb = (Inr (), el, w1)" by simp
    from Cons.IH [OF l' Cons.prems(2)]
    have "registerTemplates_loop templateRepo logger (xs @ ys) wb = (r2, el @ evs2, w2)" .
    from loop_Cons [OF b' this] eq show ?thesis by simp
  qed
qed

lemma loop_returns:
  assumes "error_returns logger"
  shows "fst (registerTemplates_loop templateRepo logger ts w) = Inr ()"
proof (induction ts arbitrary: w)
  case Nil
  show ?case by (simp add: io_return_def)
next
  case (Cons t ts)
  obtain evs w1 where b: "registerTemplates_body templateRepo logger t w = (Inr (), evs, w1)"
    using body_returns [OF assms, of templateRepo t w]
    by (cases "registerTemplates_body templateRepo logger t w") auto
  obtain r2 evs2 w2 where l: "registerTemplates_loop templateRepo logger ts w1 = (r2, evs2, w2)"
    by (cases "registerTemplates_loop templateRepo logger ts w1") auto
  from Cons.IH [of w1] l have "r2 = Inr ()" by simp
  with loop_Cons [OF b l] show ?case by simp
qed

lemma loop_created:
  "set (created_templates (fst (snd (registerTemplates_loop templateRepo logger ts w))))
     \<subseteq> templateDef ` set ts"
proof (induction ts arbitrary: w)
  case Nil
  show ?case by (simp add: io_return_def)
next
  case (Cons t ts)
  obtain rb eb wb where b: "registerTemplates_body templateRepo logger t w = (rb, eb, wb)"
    by (cases "registerTemplates_body templateRepo logger t w") auto
  from body_created [of templateRepo logger t w] b
  have c: "set (created_templates eb) \<subseteq> {templateDef t}"
    by (simp split: if_splits)
  show ?case
  proof (cases rb)
    case (Inl e)
    with b have "registerTemplates_body templateRepo logger t w = (Inl e, eb, wb)" by simp
    from loop_Cons_thrown [OF this, of ts] c show ?thesis by auto
  next
    case (Inr u)
    with b have b': "registerTemplates_body templateRepo logger t w = (Inr (), eb, wb)" by simp
    obtain rl el wl where l: "registerTemplates_loop templateRepo logger ts wb = (rl, el, wl)"
      by (cases "registerTemplates_loop templateRepo logger ts wb") auto
    from Cons.IH [of wb] l have "set (created_templates el) \<subseteq> templateDef ` set ts" by simp
    with c loop_Cons [OF b' l] show ?thesis
      by (auto simp add: created_templates_append)
  qed
qed

lemma loop_queries:
  assumes "error_returns logger"
  shows "findMany_queries (fst (snd (registerTemplates_loop templateRepo logger ts w))) =
     map (\<lambda>t. (tags (metadata t), 1, 0)) ts"
proof (induction ts arbitrary: w)
  case Nil
  show ?case by (simp add: io_return_def)
next
  case (Cons t ts)
  obtain evs w1 where b: "registerTemplates_body templateRepo logger t w = (Inr (), evs, w1)"
    using body_returns [OF assms, of templateRepo t w]
    by (cases "registerTemplates_body templateRepo logger t w") auto
  obtain r2 evs2 w2 where l: "registerTemplates_loop templateRepo logger ts w1 = (r2, evs2, w2)"
    by (cases "registerTemplates_loop templateRepo logger ts w1") auto
  from body_queries [of templateRepo logger t w] b
  have q: "findMany_queries evs = [(tags (metadata t), 1, 0)]" by simp
  from Cons.IH [of w1] l
  have "findMany_queries evs2 = map (\<lambda>t. (tags (metadata t), 1, 0)) ts" by simp
  with q loop_Cons [OF b l] show ?case
    by (simp add: findMany_queries_append)
qed

subsection \<open>Runs over the table in memory\<close>





lemma tpl_tags_stored [simp]: "tpl_tags (stored_template def ident) = tpl_tags def"
  by (simp add: stored_template_def)

lemma status_stored [simp]: "status (stored_template def ident) = status def"
  by (simp add: stored_template_def)

lemma tpl_tags_templateDef [simp]: "tpl_tags (templateDef t) = tags (metadata t)"
  by (simp add: templateDef_def)

lemma status_templateDef [simp]: "status (templateDef t) = ''active''"
  by (simp add: templateDef_def)






lemmas registrar_defs =
  registerTemplates_def registerTemplates_body_def io_bind_def io_return_def try_catch_def
  call_findMany_def call_createTemplate_def logger_debug_def logger_error_def

lemmas memory_defs =
  memory_repository_def memory_findMany_def memory_createTemplate_def same_tag_set_def

lemmas example_defs =
  verify_definition_def reset_definition_def verify_definition_v2_def

lemmas logger_defs =
  silent_logger_def error_throwing_logger_def debug_throwing_logger_def

subsection \<open>The claims about the registrar\<close>



text \<open>
  Claim C2. When a definition is reached (after any earlier definitions \<open>pre\<close>) in a store
  state where \<^verbatim>\<open>findMany\<close> with its tags returns a non-empty result, the calls made for
  that definition contain no \<^verbatim>\<open>createTemplate\<close> call. The repository and the logger are
  arbitrary; the run returns normally when the logger's \<^verbatim>\<open>error\<close> does.
\<close>

theorem registerTemplates_skips_existing:
  assumes "newRepository db logger = Inr templateRepo"
    and "registerTemplates newRepository db pre logger w0 = (Inr (), evs0, w)"
    and "fst (findMany templateRepo (tags (metadata t)) 1 0 w) = Inr existing"
    and "existing \<noteq> []"
  shows "\<exists>r evs w'. registerTemplates newRepository db (pre @ [t]) logger w0 = (r, evs0 @ evs, w')
           \<and> length (created_templates evs) = 0
           \<and> (error_returns logger \<longrightarrow> r = Inr ())"
proof -
  from assms(1,2) have pre: "registerTemplates_loop templateRepo logger pre w0 = (Inr (), evs0, w)"
    by (simp add: registerTemplates_def)
  obtain r evs w1 where b: "registerTemplates_body templateRepo logger t w = (r, evs, w1)"
    by (cases "registerTemplates_body templateRepo logger t w") auto
  from body_created [of templateRepo logger t w] b assms(3,4)
  have c: "created_templates evs = []" by simp
  from body_returns [of logger templateRepo t w] b
  have r: "error_returns logger \<longrightarrow> r = Inr ()" by simp
  from loop_append [OF pre loop_single [OF b]] assms(1) c r show ?thesis
    by (simp add: registerTemplates_def)
qed

theorem registerTemplates_skips_existing_witness:
  "(\<lambda>db logger. Inr (memory_repository same_tag_set row_count_id)) () None =
     Inr (memory_repository same_tag_set row_count_id)
   \<and> registerTemplates (\<lambda>db logger. Inr (memory_repository same_tag_set row_count_id)) ()
        [verify_definition] None [] =
       (Inr (),
        [FindManyCall [''auth.email-verify''] 1 0, CreateTemplateCall (templateDef verify_definition)],
        [stored_template (templateDef verify_definition) []])
   \<and> fst (findMany (memory_repository same_tag_set row_count_id)
            (tags (metadata verify_definition_v2)) 1 0
            [stored_template (templateDef verify_definition) []]) =
       Inr [stored_template (templateDef verify_definition) []]
   \<and> [stored_template (templateDef verify_definition) []] \<noteq> []
   \<and> (\<exists>evs w'. registerTemplates (\<lambda>db logger. Inr (memory_repository same_tag_set row_count_id)) ()
         ([verify_definition] @ [verify_definition_v2]) None [] =
           (Inr (),
            [FindManyCall [''auth.email-verify''] 1 0,
             CreateTemplateCall (templateDef verify_definition)] @ evs, w')
         \<and> length (created_templates evs) = 0)"
proof -
  let ?new = "\<lambda>db logger. Inr (memory_repository same_tag_set row_count_id)"
  let ?row = "stored_template (templateDef verify_definition) []"
  let ?none = "None :: EmailTemplate list Logger option"
  have h1: "?new () ?none = Inr (memory_repository same_tag_set row_count_id)"
    by simp
  have h2: "registerTemplates ?new () [verify_definition] ?none [] =
       (Inr (),
        [FindManyCall [''auth.email-verify''] 1 0, CreateTemplateCall (templateDef verify_definition)],
        [?row])"
    by (simp add: registrar_defs memory_defs row_count_id_def verify_definition_def)
  have h3: "fst (findMany (memory_repository same_tag_set row_count_id)
            (tags (metadata verify_definition_v2)) 1 0 [?row]) = Inr [?row]"
    by (simp add: memory_defs example_defs)
  have h4: "[?row] \<noteq> []" by simp
  have h5: "error_returns ?none" by (simp add: error_returns_def)
  from registerTemplates_skips_existing [OF h1 h2 h3 h4] h1 h2 h3 h4 h5
  show ?thesis by auto
qed

text \<open>
  Claim C3. When a definition is reached in a store state where \<^verbatim>\<open>findMany\<close> with its
  tags returns the empty result, the calls made for that definition contain exactly one
  \<^verbatim>\<open>createTemplate\<close> call, and its record has the subject, HTML body, text body, tags and
  variables of the definition. The repository and the logger are arbitrary; the insert
  may throw.
\<close>

theorem registerTemplates_inserts_absent:
  assumes "newRepository db logger = Inr templateRepo"
    and "registerTemplates newRepository db pre logger w0 = (Inr (), evs0, w)"
    and "fst (findMany templateRepo (tags (metadata t)) 1 0 w) = Inr []"
  shows "\<exists>r evs w' def. registerTemplates newRepository db (pre @ [t]) logger w0 = (r, evs0 @ evs, w')
           \<and> created_templates evs = [def]
           \<and> tpl_subject def = subject (metadata t)
           \<and> bodyHtml def = html (content t)
           \<and> bodyText def = text_part (content t)
           \<and> tpl_tags def = tags (metadata t)
           \<and> tpl_variables def = variables (metadata t)
           \<and> (error_returns logger \<longrightarrow> r = Inr ())"
proof -
  from assms(1,2) have pre: "registerTemplates_loop templateRepo logger pre w0 = (Inr (), evs0, w)"
    by (simp add: registerTemplates_def)
  obtain r evs w1 where b: "registerTemplates_body templateRepo logger t w = (r, evs, w1)"
    by (cases "registerTemplates_body templateRepo logger t w") auto
  from body_created [of templateRepo logger t w] b assms(3)
  have c: "created_templates evs = [templateDef t]" by simp
  from body_returns [of logger templateRepo t w] b
  have r: "error_returns logger \<longrightarrow> r = Inr ()" by simp
  from loop_append [OF pre loop_single [OF b]] assms(1)
  have "registerTemplates newRepository db (pre @ [t]) logger w0 = (r, evs0 @ evs, w1)"
    by (simp add: registerTemplates_def)
  with c r show ?thesis
    by (simp add: templateDef_def)
qed

theorem registerTemplates_inserts_absent_witness:
  "(\<lambda>db logger. Inr (memory_repository same_tag_set row_count_id)) () None =
     Inr (memory_repository same_tag_set row_count_id)
   \<and> registerTemplates (\<lambda>db logger. Inr (memory_repository same_tag_set row_count_id)) ()
        [verify_definition] None [] =
       (Inr (),
        [FindManyCall [''auth.email-verify''] 1 0, CreateTemplateCall (templateDef verify_definition)],
        [stored_template (templateDef verify_definition) []])
   \<and> fst (findMany (memory_repository same_tag_set row_count_id)
            (tags (metadata reset_definition)) 1 0
            [stored_template (templateDef verify_definition) []]) = Inr []
   \<and> (\<exists>evs w' def. registerTemplates (\<lambda>db logger. Inr (memory_repository same_tag_set row_count_id)) ()
         ([verify_definition] @ [reset_definition]) None [] =
           (Inr (),
            [FindManyCall [''auth.email-verify''] 1 0,
             CreateTemplateCall (templateDef verify_definition)] @ evs, w')
         \<and> created_templates evs = [def]
         \<and> tpl_subject def = subject (metadata reset_definition)
         \<and> bodyHtml def = html (content reset_definition)
         \<and> bodyText def = text_part (content reset_definition)
         \<and> tpl_tags def = tags (metadata reset_definition)
         \<and> tpl_variables def = variables (metadata reset_definition))"
proof -
  let ?new = "\<lambda>db logger. Inr (memory_repository same_tag_set row_count_id)"
  let ?row = "stored_template (templateDef verify_definition) []"
  let ?none = "None :: EmailTemplate list Logger option"
  have h1: "?new () ?none = Inr (memory_repository same_tag_set row_count_id)"
    by simp
  have h2: "registerTemplates ?new () [verify_definition] ?none [] =
       (Inr (),
        [FindManyCall [''auth.email-verify''] 1 0, CreateTemplateCall (templateDef verify_definition)],
        [?row])"
    by (simp add: registrar_defs memory_defs row_count_id_def verify_definition_def)
  have h3: "fst (findMany (memory_repository same_tag_set row_count_id)
            (tags (metadata reset_definition)) 1 0 [?row]) = Inr []"
    by (simp add: memory_defs example_defs)
  have h5: "error_returns ?none" by (simp add: error_returns_def)
  from registerTemplates_inserts_absent [OF h1 h2 h3] h1 h2 h3 h5
  show ?thesis by auto
qed

text \<open>
  Claim C4. As stated the claim fails: the \<^verbatim>\<open>logger?.error\<close> call of the catch handler is
  under no \<^verbatim>\<open>try\<close>, so with a logger whose \<^verbatim>\<open>error\<close> throws the first failure of the store
  ends the run. With a logger whose \<^verbatim>\<open>error\<close> returns normally (or none) it holds: whatever
  the repository does for the definitions up to and including \<open>t\<close> (its \<^verbatim>\<open>findMany\<close> or
  \<^verbatim>\<open>createTemplate\<close> may throw), every later definition \<open>d\<close> is processed from the state
  the earlier ones left: its existence check is made, \<^verbatim>\<open>createTemplate\<close> is called with its
  record exactly when the check returns the empty result, the rest of the batch follows,
  and the existence checks of the whole batch are made in order.
\<close>

theorem registerTemplates_continues_after_failure:
  assumes "newRepository db logger = Inr templateRepo"
    and "error_returns logger"
  shows "\<exists>evs0 w1 evs w2 evs' w3.
        registerTemplates newRepository db (pre @ t # mid) logger w = (Inr (), evs0, w1)
      \<and> registerTemplates_body templateRepo logger d w1 = (Inr (), evs, w2)
      \<and> registerTemplates newRepository db rest logger w2 = (Inr (), evs', w3)
      \<and> registerTemplates newRepository db (pre @ t # mid @ d # rest) logger w =
          (Inr (), evs0 @ evs @ evs', w3)
      \<and> findMany_queries evs = [(tags (metadata d), 1, 0)]
      \<and> created_templates evs =
          (if fst (findMany templateRepo (tags (metadata d)) 1 0 w1) = Inr []
           then [templateDef d] else [])
      \<and> findMany_queries (evs0 @ evs @ evs') =
          map (\<lambda>x. (tags (metadata x), 1, 0)) (pre @ t # mid @ d # rest)"
proof -
  obtain evs0 w1 where
    a: "registerTemplates_loop templateRepo logger (pre @ t # mid) w = (Inr (), evs0, w1)"
    using loop_returns [OF assms(2), of templateRepo "pre @ t # mid" w]
    by (cases "registerTemplates_loop templateRepo logger (pre @ t # mid) w") auto
  obtain evs w2 where
    b: "registerTemplates_body templateRepo logger d w1 = (Inr (), evs, w2)"
    using body_returns [OF assms(2), of templateRepo d w1]
    by (cases "registerTemplates_body templateRepo logger d w1") auto
  obtain evs' w3 where
    c: "registerTemplates_loop templateRepo logger rest w2 = (Inr (), evs', w3)"
    using loop_returns [OF assms(2), of templateRepo rest w2]
    by (cases "registerTemplates_loop templateRepo logger rest w2") auto
  from loop_append [OF a loop_Cons [OF b c]]
  have whole: "registerTemplates_loop templateRepo logger (pre @ t # mid @ d # rest) w =
                 (Inr (), evs0 @ evs @ evs', w3)"
    by simp
  from body_queries [of templateRepo logger d w1] b
  have q: "findMany_queries evs = [(tags (metadata d), 1, 0)]" by simp
  from body_created [of templateRepo logger d w1] b
  have cr: "created_templates evs =
          (if fst (findMany templateRepo (tags (metadata d)) 1 0 w1) = Inr []
           then [templateDef d] else [])"
    by simp
  from loop_queries [OF assms(2), of templateRepo "pre @ t # mid @ d # rest" w] whole
  have qs: "findMany_queries (evs0 @ evs @ evs') =
          map (\<lambda>x. (tags (metadata x), 1, 0)) (pre @ t # mid @ d # rest)"
    by simp
  from a b c whole assms(1) have runs:
    "registerTemplates newRepository db (pre @ t # mid) logger w = (Inr (), evs0, w1)"
    "registerTemplates newRepository db rest logger w2 = (Inr (), evs', w3)"
    "registerTemplates newRepository db (pre @ t # mid @ d # rest) logger w =
       (Inr (), evs0 @ evs @ evs', w3)"
    by (simp_all add: registerTemplates_def)
  from runs b q cr qs show ?thesis by blast
qed

theorem registerTemplates_continues_after_failure_witness:
  "new_insert_failing () (Some silent_logger) = Inr insert_failing_repository
   \<and> error_returns (Some (silent_logger :: nat Logger))
   \<and> fst (createTemplate insert_failing_repository (templateDef verify_definition) 1) =
       Inl (JsError ''insert failed'')
   \<and> registerTemplates new_insert_failing ()
        ([] @ verify_definition # [] @ reset_definition # [verify_definition_v2])
        (Some silent_logger) 0 =
       (Inr (),
        [FindManyCall [''auth.email-verify''] 1 0,
         CreateTemplateCall (templateDef verify_definition),
         LogError (FailedContext (JsError ''insert failed'') ''Email Verification''
                     [''auth.email-verify''])
           ''Failed to register email template'',
         FindManyCall [''auth.password-reset''] 1 0,
         CreateTemplateCall (templateDef reset_definition),
         LogError (FailedContext (JsError ''insert failed'') ''Password Reset''
                     [''auth.password-reset''])
           ''Failed to register email template'',
         FindManyCall [''auth.email-verify''] 1 0,
         CreateTemplateCall (templateDef verify_definition_v2),
         LogError (FailedContext (JsError ''insert failed'') ''Email Verification''
                     [''auth.email-verify''])
           ''Failed to register email template''],
        6)
   \<and> (\<exists>evs0 w1 evs w2 evs' w3.
        registerTemplates new_insert_failing () ([] @ verify_definition # []) (Some silent_logger) 0 =
          (Inr (), evs0, w1)
      \<and> registerTemplates_body insert_failing_repository (Some silent_logger) reset_definition w1 =
          (Inr (), evs, w2)
      \<and> registerTemplates new_insert_failing () [verify_definition_v2] (Some silent_logger) w2 =
          (Inr (), evs', w3)
      \<and> registerTemplates new_insert_failing ()
          ([] @ verify_definition # [] @ reset_definition # [verify_definition_v2])
          (Some silent_logger) 0 = (Inr (), evs0 @ evs @ evs', w3)
      \<and> findMany_queries evs = [(tags (metadata reset_definition), 1, 0)]
      \<and> created_templates evs =
          (if fst (findMany insert_failing_repository (tags (metadata reset_definition)) 1 0 w1) =
                Inr []
           then [templateDef reset_definition] else [])
      \<and> findMany_queries (evs0 @ evs @ evs') =
          map (\<lambda>x. (tags (metadata x), 1, 0))
            ([] @ verify_definition # [] @ reset_definition # [verify_definition_v2]))"
proof -
  let ?logger = "Some (silent_logger :: nat Logger)"
  have h1: "new_insert_failing () ?logger = Inr insert_failing_repository"
    by (simp add: new_insert_failing_def)
  have h2: "error_returns ?logger"
    by (simp add: error_returns_def silent_logger_def)
  have f: "fst (createTemplate insert_failing_repository (templateDef verify_definition) 1) =
       Inl (JsError ''insert failed'')"
    by (simp add: insert_failing_repository_def)
  have run: "registerTemplates new_insert_failing ()
        ([] @ verify_definition # [] @ reset_definition # [verify_definition_v2]) ?logger 0 =
       (Inr (),
        [FindManyCall [''auth.email-verify''] 1 0,
         CreateTemplateCall (templateDef verify_definition),
         LogError (FailedContext (JsError ''insert failed'') ''Email Verification''
                     [''auth.email-verify''])
           ''Failed to register email template'',
         FindManyCall [''auth.password-reset''] 1 0,
         CreateTemplateCall (templateDef reset_definition),
         LogError (FailedContext (JsError ''insert failed'') ''Password Reset''
                     [''auth.password-reset''])
           ''Failed to register email template'',
         FindManyCall [''auth.email-verify''] 1 0,
         CreateTemplateCall (templateDef verify_definition_v2),
         LogError (FailedContext (JsError ''insert failed'') ''Email Verification''
                     [''auth.email-verify''])
           ''Failed to register email template''],
        6)"
    by (simp add: registrar_defs new_insert_failing_def insert_failing_repository_def
        silent_logger_def example_defs)
  from registerTemplates_continues_after_failure [where newRepository = new_insert_failing
      and db = "()" and logger = ?logger and templateRepo = insert_failing_repository
      and pre = "[]" and t = verify_definition and mid = "[]" and d = reset_definition
      and rest = "[verify_definition_v2]" and w = 0, OF h1 h2]
  have "\<exists>evs0 w1 evs w2 evs' w3.
        registerTemplates new_insert_failing () ([] @ verify_definition # []) ?logger 0 =
          (Inr (), evs0, w1)
      \<and> registerTemplates_body insert_failing_repository ?logger reset_definition w1 =
          (Inr (), evs, w2)
      \<and> registerTemplates new_insert_failing () [verify_definition_v2] ?logger w2 =
          (Inr (), evs', w3)
      \<and> registerTemplates new_insert_failing ()
          ([] @ verify_definition # [] @ reset_definition # [verify_definition_v2])
          ?logger 0 = (Inr (), evs0 @ evs @ evs', w3)
      \<and> findMany_queries evs = [(tags (metadata reset_definition), 1, 0)]
      \<and> created_templates evs =
          (if fst (findMany insert_failing_repository (tags (metadata reset_definition)) 1 0 w1) =
                Inr []
           then [templateDef reset_definition] else [])
      \<and> findMany_queries (evs0 @ evs @ evs') =
          map (\<lambda>x. (tags (metadata x), 1, 0))
            ([] @ verify_definition # [] @ reset_definition # [verify_definition_v2])" .
  with h1 h2 f run show ?thesis by (intro conjI)
qed

text \<open>
  The claim as stated, refuted: the query for the first definition throws, the logger's
  \<^verbatim>\<open>error\<close> throws in the handler, and the run ends before the second definition is
  looked up.
\<close>

theorem registerTemplates_continues_after_failure_counterexample:
  "new_query_failing () (Some error_throwing_logger) = Inr query_failing_repository
   \<and> fst (findMany query_failing_repository (tags (metadata verify_definition)) 1 0 0) =
       Inl (JsError ''query failed'')
   \<and> registerTemplates new_query_failing () [verify_definition, reset_definition]
        (Some error_throwing_logger) 0 =
       (Inl (JsError ''logger failed''),
        [FindManyCall [''auth.email-verify''] 1 0,
         LogError (FailedContext (JsError ''query failed'') ''Email Verification''
                     [''auth.email-verify''])
           ''Failed to register email template''],
        1)
   \<and> findMany_queries (fst (snd (registerTemplates new_query_failing ()
         [verify_definition, reset_definition] (Some error_throwing_logger) 0))) =
       [([''auth.email-verify''], 1, 0)]
   \<and> tags (metadata reset_definition) = [''auth.password-reset'']"
  by (simp add: registrar_defs new_query_failing_def query_failing_repository_def
      error_throwing_logger_def verify_definition_def reset_definition_def)



text \<open>
  Claim C9. As stated the claim fails: a throw of \<^verbatim>\<open>logger?.error\<close> in the catch handler
  leaves \<^verbatim>\<open>registerTemplates\<close>. When the constructor of the repository returns and the
  logger's \<^verbatim>\<open>error\<close> returns normally (or there is no logger), \<^verbatim>\<open>registerTemplates\<close>
  returns normally for every list of definitions and every behaviour of \<^verbatim>\<open>findMany\<close>,
  \<^verbatim>\<open>createTemplate\<close> and \<^verbatim>\<open>logger?.debug\<close>, throwing included.
\<close>

theorem registerTemplates_never_throws:
  assumes "newRepository db logger = Inr templateRepo"
    and "error_returns logger"
  shows "fst (registerTemplates newRepository db templates logger w) = Inr ()"
  using assms(1) loop_returns [OF assms(2), of templateRepo templates w]
  by (simp add: registerTemplates_def)

theorem registerTemplates_never_throws_witness:
  "new_query_failing () (Some debug_throwing_logger) = Inr query_failing_repository
   \<and> error_returns (Some (debug_throwing_logger :: nat Logger))
   \<and> fst (findMany query_failing_repository [''auth.email-verify''] 1 0 0) =
       Inl (JsError ''query failed'')
   \<and> fst (registerTemplates new_query_failing ()
         [verify_definition, reset_definition] (Some debug_throwing_logger) 0) = Inr ()"
proof -
  let ?logger = "Some (debug_throwing_logger :: nat Logger)"
  have h1: "new_query_failing () ?logger = Inr query_failing_repository"
    by (simp add: new_query_failing_def)
  have h2: "error_returns ?logger"
    by (simp add: error_returns_def debug_throwing_logger_def)
  have f: "fst (findMany query_failing_repository [''auth.email-verify''] 1 0 0) =
       Inl (JsError ''query failed'')"
    by (simp add: query_failing_repository_def)
  from registerTemplates_never_throws [where newRepository = new_query_failing
      and db = "()" and logger = ?logger and templateRepo = query_failing_repository
      and templates = "[verify_definition, reset_definition]" and w = 0, OF h1 h2] h1 h2 f
  show ?thesis by (intro conjI)
qed

text \<open>
  The claim as stated, refuted: the constructor returns, the insert throws, the logger's
  \<^verbatim>\<open>error\<close> throws in the handler, and \<^verbatim>\<open>registerTemplates\<close> throws.
\<close>

theorem registerTemplates_never_throws_counterexample:
  "new_insert_failing () (Some error_throwing_logger) = Inr insert_failing_repository
   \<and> registerTemplates new_insert_failing () [verify_definition] (Some error_throwing_logger) 0 =
       (Inl (JsError ''logger failed''),
        [FindManyCall [''auth.email-verify''] 1 0,
         CreateTemplateCall (templateDef verify_definition),
         LogError (FailedContext (JsError ''insert failed'') ''Email Verification''
                     [''auth.email-verify''])
           ''Failed to register email template''],
        2)"
  by (simp add: registrar_defs new_insert_failing_def insert_failing_repository_def
      error_throwing_logger_def verify_definition_def)

text \<open>
  Claim C10. Every record the registrar hands to \<^verbatim>\<open>createTemplate\<close> has the status
  \<^verbatim>\<open>'active'\<close>, whatever the repository and the logger do.
\<close>

theorem registerTemplates_inserts_active:
  "\<forall>r \<in> set (created_templates (fst (snd (registerTemplates newRepository db templates logger w)))).
     status r = ''active''"
proof (cases "newRepository db logger")
  case (Inl e)
  then show ?thesis by (simp add: registerTemplates_def)
next
  case (Inr templateRepo)
  have "status (templateDef t) = ''active''" for t
    by (simp add: templateDef_def)
  with loop_created [of templateRepo logger templates w] Inr show ?thesis
    by (auto simp add: registerTemplates_def)
qed

theorem registerTemplates_inserts_active_witness:
  "templateDef verify_definition \<in> set (created_templates (fst (snd (registerTemplates
       new_insert_failing () [verify_definition, reset_definition]
       (Some error_throwing_logger) 0))))
   \<and> status (templateDef verify_definition) = ''active''"
proof -
  have m: "templateDef verify_definition \<in> set (created_templates (fst (snd (registerTemplates
       new_insert_failing () [verify_definition, reset_definition]
       (Some error_throwing_logger) 0))))"
    by (simp add: registrar_defs new_insert_failing_def insert_failing_repository_def
        error_throwing_logger_def)
  with registerTemplates_inserts_active [of new_insert_failing "()"
      "[verify_definition, reset_definition]" "Some error_throwing_logger" 0]
  show ?thesis by blast
qed

text \<open>
  A throw of \<^verbatim>\<open>logger?.debug\<close> is inside the \<^verbatim>\<open>try\<close>: it is caught and reported through
  \<^verbatim>\<open>logger?.error\<close>, after the insert has been made.
\<close>

lemma debug_throw_is_caught:
  "registerTemplates (\<lambda>db logger. Inr (memory_repository same_tag_set row_count_id)) ()
     [verify_definition] (Some debug_throwing_logger) [] =
     (Inr (),
      [FindManyCall [''auth.email-verify''] 1 0,
       CreateTemplateCall (templateDef verify_definition),
       LogDebug (CreatedContext [] ''Email Verification'' [''auth.email-verify''])
         ''Email template registered'',
       LogError (FailedContext (JsError ''debug failed'') ''Email Verification''
                   [''auth.email-verify''])
         ''Failed to register email template''],
      [stored_template (templateDef verify_definition) []])"
  by (simp add: registrar_defs memory_defs row_count_id_def debug_throwing_logger_def
      verify_definition_def stored_template_def templateDef_def)

section \<open>Properties of the build constants\<close>

subsection \<open>Quoting and reading back a string\<close>

lemma digit_range:
  fixes n :: code_unit
  assumes "n < 10"
  shows "0x30 \<le> 0x30 + n" and "0x30 + n \<le> 0x39"
proof -
  from assms have "unat n < 10" by (simp add: word_less_nat_alt)
  then have u: "unat (0x30 + n) = 48 + unat n" by (simp add: unat_word_ariths)
  from u show "0x30 \<le> 0x30 + n" by (simp add: word_le_nat_alt)
  from u \<open>unat n < 10\<close> show "0x30 + n \<le> 0x39" by (simp add: word_le_nat_alt)
qed


lemma letter_range:
  fixes n :: code_unit
  assumes "\<not> n < 10" and "n < 16"
  shows "\<not> 0x61 + (n - 10) \<le> 0x39"
    and "0x61 \<le> 0x61 + (n - 10)" and "0x61 + (n - 10) \<le> 0x66"
proof -
  from assms have b: "10 \<le> unat n" "unat n < 16"
    by (simp_all add: word_less_nat_alt)
  from assms(1) have "10 \<le> n" by simp
  then have "unat (n - 10) = unat n - 10" by (simp add: unat_sub)
  with b have u: "unat (0x61 + (n - 10)) = 87 + unat n" by (simp add: unat_word_ariths)
  from u b show "\<not> 0x61 + (n - 10) \<le> 0x39" by (simp add: word_le_nat_alt)
  from u b show "0x61 \<le> 0x61 + (n - 10)" by (simp add: word_le_nat_alt)
  from u b show "0x61 + (n - 10) \<le> 0x66" by (simp add: word_le_nat_alt)
qed

lemma hex_value_hex_digit:
  fixes n :: code_unit
  assumes "n < 16"
  shows "hex_value (hex_digit n) = Some n"
proof (cases "n < 10")
  case True
  with digit_range [OF True] show ?thesis
    by (simp add: hex_value_def hex_digit_def)
next
  case False
  with letter_range [OF False assms] show ?thesis
    by (simp add: hex_value_def hex_digit_def)
qed

lemma nibble_less:
  fixes x :: code_unit
  shows "x AND 0xF < 16"
proof -
  have "x AND 0xF \<le> 0xF" by (rule word_and_le1)
  then have "unat (x AND 0xF) \<le> 15" by (simp add: word_le_nat_alt)
  then show ?thesis by (simp add: word_less_nat_alt)
qed

lemma nibbles_join:
  fixes c :: code_unit
  shows "push_bit 12 (drop_bit 12 c AND 0xF) OR push_bit 8 (drop_bit 8 c AND 0xF) OR
         push_bit 4 (drop_bit 4 c AND 0xF) OR (c AND 0xF) = c"
proof -
  have m: "(0xF :: code_unit) = mask 4" by (simp add: mask_eq_exp_minus_1)
  have "push_bit 12 (drop_bit 12 c AND mask 4) OR push_bit 8 (drop_bit 8 c AND mask 4) OR
         push_bit 4 (drop_bit 4 c AND mask 4) OR (c AND mask 4) = c"
  proof (rule bit_word_eqI)
    fix n :: nat
    assume "n < LENGTH(16)"
    then consider "n < 4" | "4 \<le> n \<and> n < 8" | "8 \<le> n \<and> n < 12" | "12 \<le> n \<and> n < 16"
      by fastforce
    then show "bit (push_bit 12 (drop_bit 12 c AND mask 4) OR push_bit 8 (drop_bit 8 c AND mask 4) OR
         push_bit 4 (drop_bit 4 c AND mask 4) OR (c AND mask 4)) n = bit c n"
      by cases (auto simp add: bit_simps)
  qed
  then show ?thesis by (simp only: m)
qed


lemma hex4_nibbles:
  fixes c :: code_unit
  shows "hex4 (hex_digit (drop_bit 12 c AND 0xF)) (hex_digit (drop_bit 8 c AND 0xF))
           (hex_digit (drop_bit 4 c AND 0xF)) (hex_digit (c AND 0xF)) = Some c"
proof -
  have "hex_value (hex_digit (drop_bit 12 c AND 0xF)) = Some (drop_bit 12 c AND 0xF)"
    and "hex_value (hex_digit (drop_bit 8 c AND 0xF)) = Some (drop_bit 8 c AND 0xF)"
    and "hex_value (hex_digit (drop_bit 4 c AND 0xF)) = Some (drop_bit 4 c AND 0xF)"
    and "hex_value (hex_digit (c AND 0xF)) = Some (c AND 0xF)"
    by (rule hex_value_hex_digit [OF nibble_less])+
  then show ?thesis
    by (simp only: hex4_def prod.case option.case nibbles_join)
qed

lemma parse_UnicodeEscape:
  "parse_string_chars (UnicodeEscape c @ rest) = cons_unit c (parse_string_chars rest)"
  by (simp add: UnicodeEscape_def hex4_nibbles)

lemma trailing_not_control:
  assumes "is_trailing_surrogate c"
  shows "c \<noteq> 0x22" and "c \<noteq> 0x5C" and "\<not> c < 0x20"
  using assms by (auto simp add: is_trailing_surrogate_def word_le_nat_alt word_less_nat_alt)

lemma leading_not_control:
  assumes "is_leading_surrogate c"
  shows "c \<noteq> 0x22" and "c \<noteq> 0x5C" and "\<not> c < 0x20"
  using assms by (auto simp add: is_leading_surrogate_def word_le_nat_alt word_less_nat_alt)

lemma parse_quote_unit:
  "parse_string_chars (quote_unit c @ rest) = cons_unit c (parse_string_chars rest)"
  by (simp add: quote_unit_def parse_UnicodeEscape simple_escape_def)

lemma parse_quote_units:
  "parse_string_chars (quote_units s @ 0x22 # rest) = Some (s, rest)"
proof (induction s rule: quote_units.induct)
  case 1
  show ?case by simp
next
  case (2 c)
  show ?case
    by (simp add: parse_UnicodeEscape parse_quote_unit cons_unit_def)
next
  case (3 c d cs)
  show ?case
  proof (cases "is_leading_surrogate c")
    case False
    with 3 show ?thesis
      by (simp add: parse_quote_unit cons_unit_def)
  next
    case lead: True
    show ?thesis
    proof (cases "is_trailing_surrogate d")
      case False
      with lead 3 show ?thesis
        by (simp add: parse_UnicodeEscape cons_unit_def)
    next
      case True
      with lead 3 have "parse_string_chars (quote_units cs @ 0x22 # rest) = Some (cs, rest)"
        by simp
      with lead True show ?thesis
        by (simp add: leading_not_control trailing_not_control cons_unit_def)
    qed
  qed
qed

lemma JSON_parse_stringify: "JSON_parse_string (JSON_stringify v) = Some v"
  by (simp add: JSON_parse_string_def JSON_stringify_def is_json_space_def parse_quote_units)

lemma split_first_equals_key:
  assumes "0x3D \<notin> set key"
  shows "split_first_equals (key @ 0x3D # v) = Some (key, v)"
proof -
  from assms have "\<forall>c \<in> set key. c \<noteq> 0x3D" by auto
  then have "dropWhile (\<lambda>c. c \<noteq> 0x3D) (key @ 0x3D # v) = 0x3D # v"
    and "takeWhile (\<lambda>c. c \<noteq> 0x3D) (key @ 0x3D # v) = key"
    by (simp_all add: dropWhile_append3 takeWhile_tail)
  then show ?thesis by (simp add: split_first_equals_def)
qed

lemma parse_define_pair:
  assumes "0x3D \<notin> set key"
  shows "parseDefineArgs (js ''--define'' # (key @ js ''='' @ JSON_stringify v) # args) =
           (case parseDefineArgs args of None \<Rightarrow> None | Some entries \<Rightarrow> Some ((key, v) # entries))"
proof -
  have "js ''='' = [0x3D]" by (simp add: js_def)
  with split_first_equals_key [OF assms] show ?thesis
    by (simp add: JSON_parse_stringify)
qed

text \<open>
  Claim C5. Reading the arguments of \<^verbatim>\<open>constantsToDefineArgs\<close> back, pair by pair, split at
  the first \<^verbatim>\<open>=\<close> and JSON-decoded, gives the six field names with the six strings of the
  record, for every record of six strings.
\<close>

theorem constantsToDefineArgs_round_trip:
  "parseDefineArgs (constantsToDefineArgs constants) =
     Some [(js ''BUILD_VERSION'', BUILD_VERSION constants),
           (js ''BUILD_TIME'', BUILD_TIME constants),
           (js ''BUILD_TIMESTAMP'', BUILD_TIMESTAMP constants),
           (js ''GIT_COMMIT'', GIT_COMMIT constants),
           (js ''GIT_BRANCH'', GIT_BRANCH constants),
           (js ''COMPILER_VERSION'', COMPILER_VERSION constants)]"
proof -
  have keys: "0x3D \<notin> set (js ''BUILD_VERSION'')" "0x3D \<notin> set (js ''BUILD_TIME'')"
    "0x3D \<notin> set (js ''BUILD_TIMESTAMP'')" "0x3D \<notin> set (js ''GIT_COMMIT'')"
    "0x3D \<notin> set (js ''GIT_BRANCH'')" "0x3D \<notin> set (js ''COMPILER_VERSION'')"
    by (simp_all add: js_def)
  show ?thesis
    by (simp add: constantsToDefineArgs_def Object_entries_def parse_define_pair keys
        del: parseDefineArgs.simps(3))
qed

subsection \<open>The generator\<close>

lemma getGitCommit_cases:
  "getGitCommit env =
     Inr (if git_dir_exists env
          then (case git_rev_parse_HEAD env of Inl e \<Rightarrow> js ''unknown'' | Inr result \<Rightarrow> trim result)
          else js ''unknown'')"
  by (simp add: getGitCommit_def catch_result_def bind_result_def split: sum.splits)

lemma getGitBranch_cases:
  "getGitBranch env =
     Inr (if git_dir_exists env
          then (case git_rev_parse_abbrev_ref_HEAD env of
                  Inl e \<Rightarrow> js ''unknown'' | Inr result \<Rightarrow> trim result)
          else js ''unknown'')"
  by (simp add: getGitBranch_def catch_result_def bind_result_def split: sum.splits)

lemma getPackageVersion_returns: "\<exists>v. getPackageVersion env = Inr v"
  by (simp add: getPackageVersion_def catch_result_def bind_result_def split: sum.splits)

lemma generateBuildConstants_cases:
  assumes "getPackageVersion env = Inr v"
    and "getGitCommit env = Inr commit"
    and "getGitBranch env = Inr branch"
  shows "generateBuildConstants env =
     (case ToString_outcome v of
        Inl e \<Rightarrow> Inl e
      | Inr u \<Rightarrow>
          Inr \<lparr> BUILD_VERSION = v,
                BUILD_TIME = toLocaleString_now env,
                BUILD_TIMESTAMP = toISOString_now env,
                GIT_COMMIT = commit,
                GIT_BRANCH = branch,
                COMPILER_VERSION = Bun_version env \<rparr>)"
  using assms
  by (simp add: generateBuildConstants_def bind_result_def Let_def
      getBuildTime_def getCurrentTimestamp_def getCompilerVersion_def split: sum.splits)

lemma getPackageVersion_git_independent:
  "getPackageVersion (env\<lparr>git_rev_parse_HEAD := q\<rparr>) = getPackageVersion env"
  "getPackageVersion (env\<lparr>git_rev_parse_abbrev_ref_HEAD := q\<rparr>) = getPackageVersion env"
  by (simp_all add: getPackageVersion_def)

lemma git_lookups_independent:
  "getGitCommit (env\<lparr>git_rev_parse_abbrev_ref_HEAD := q\<rparr>) = getGitCommit env"
  "getGitBranch (env\<lparr>git_rev_parse_HEAD := q\<rparr>) = getGitBranch env"
  by (simp_all add: getGitCommit_cases getGitBranch_cases)

text \<open>
  Claim C6. When package.json cannot be read, or its text is not JSON, or the parsed value
  has no \<^verbatim>\<open>version\<close> property, the generator returns and its version is the string
  \<^verbatim>\<open>0.0.0\<close>.
\<close>

theorem generateBuildConstants_version_default:
  assumes "(\<exists>e. readFileSync_package_json env = Inl e)
         \<or> (\<exists>contents e. readFileSync_package_json env = Inr contents
               \<and> JSON_parse env contents = Inl e)
         \<or> (\<exists>contents packageJson. readFileSync_package_json env = Inr contents
               \<and> JSON_parse env contents = Inr packageJson
               \<and> ((\<exists>e. get_property packageJson (js ''version'') = Inl e)
                    \<or> get_property packageJson (js ''version'') = Inr None))"
  shows "\<exists>c. generateBuildConstants env = Inr c \<and> BUILD_VERSION c = JString (js ''0.0.0'')"
proof -
  from assms have v: "getPackageVersion env = Inr (JString (js ''0.0.0''))"
    by (auto simp add: getPackageVersion_def catch_result_def bind_result_def or_else_def)
  have "ToString_outcome (JString (js ''0.0.0'')) = Inr ()"
    by (simp add: ToString_outcome_def)
  with generateBuildConstants_cases [OF v getGitCommit_cases getGitBranch_cases]
  show ?thesis by simp
qed

theorem generateBuildConstants_version_default_witness:
  "readFileSync_package_json (example_env\<lparr>readFileSync_package_json := Inl (JsError ''ENOENT'')\<rparr>)
     = Inl (JsError ''ENOENT'')
   \<and> (\<exists>c. generateBuildConstants (example_env\<lparr>readFileSync_package_json := Inl (JsError ''ENOENT'')\<rparr>)
            = Inr c \<and> BUILD_VERSION c = JString (js ''0.0.0''))
   \<and> JSON_parse example_env (js ''{ version'') = Inl (JsError ''SyntaxError'')
   \<and> (\<exists>c. generateBuildConstants (example_env\<lparr>readFileSync_package_json := Inr (js ''{ version'')\<rparr>)
            = Inr c \<and> BUILD_VERSION c = JString (js ''0.0.0''))
   \<and> JSON_parse example_env (js ''{}'') = Inr (JObject [])
   \<and> get_property (JObject []) (js ''version'') = Inr None
   \<and> (\<exists>c. generateBuildConstants example_env = Inr c \<and> BUILD_VERSION c = JString (js ''0.0.0''))"
proof -
  let ?unreadable = "example_env\<lparr>readFileSync_package_json := Inl (JsError ''ENOENT'')\<rparr>"
  let ?broken = "example_env\<lparr>readFileSync_package_json := Inr (js ''{ version'')\<rparr>"
  have p1: "JSON_parse example_env (js ''{ version'') = Inl (JsError ''SyntaxError'')"
    by (simp add: example_env_def js_def)
  have p2: "JSON_parse example_env (js ''{}'') = Inr (JObject [])"
    by (simp add: example_env_def)
  have p3: "get_property (JObject []) (js ''version'') = Inr None"
    by simp
  have "\<exists>e. readFileSync_package_json ?unreadable = Inl e" by simp
  then have a: "\<exists>c. generateBuildConstants ?unreadable = Inr c \<and> BUILD_VERSION c = JString (js ''0.0.0'')"
    by (intro generateBuildConstants_version_default) blast
  have "\<exists>contents e. readFileSync_package_json ?broken = Inr contents
          \<and> JSON_parse ?broken contents = Inl e"
    using p1 by simp
  then have b: "\<exists>c. generateBuildConstants ?broken = Inr c \<and> BUILD_VERSION c = JString (js ''0.0.0'')"
    by (intro generateBuildConstants_version_default) blast
  have "\<exists>contents packageJson. readFileSync_package_json example_env = Inr contents
          \<and> JSON_parse example_env contents = Inr packageJson
          \<and> ((\<exists>e. get_property packageJson (js ''version'') = Inl e)
               \<or> get_property packageJson (js ''version'') = Inr None)"
    using p2 p3 by (simp add: example_env_def)
  then have c: "\<exists>c. generateBuildConstants example_env = Inr c \<and> BUILD_VERSION c = JString (js ''0.0.0'')"
    by (intro generateBuildConstants_version_default) blast
  from a b c p1 p2 p3 show ?thesis by simp
qed

text \<open>
  Claim C7. The two git lookups always return. Without a \<^verbatim>\<open>.git\<close> directory both yield
  \<^verbatim>\<open>unknown\<close>; a failing commit query makes the commit hash \<^verbatim>\<open>unknown\<close>, a failing branch
  query makes the branch \<^verbatim>\<open>unknown\<close>; the record the generator returns carries these two
  values, and neither field changes with the outcome of the other field's query. An
  exception that leaves the generator is never one of the git lookups: it is the
  TypeError of printing a version that cannot be converted to a string, and without it
  the generator returns.
\<close>

theorem generateBuildConstants_git_unknown:
  "\<exists>commit branch.
      getGitCommit env = Inr commit \<and> getGitBranch env = Inr branch
    \<and> (\<not> git_dir_exists env \<longrightarrow> commit = js ''unknown'' \<and> branch = js ''unknown'')
    \<and> ((\<exists>e. git_rev_parse_HEAD env = Inl e) \<longrightarrow> commit = js ''unknown'')
    \<and> ((\<exists>e. git_rev_parse_abbrev_ref_HEAD env = Inl e) \<longrightarrow> branch = js ''unknown'')
    \<and> (\<forall>c. generateBuildConstants env = Inr c \<longrightarrow> GIT_COMMIT c = commit \<and> GIT_BRANCH c = branch)
    \<and> (\<forall>q c. generateBuildConstants (env\<lparr>git_rev_parse_abbrev_ref_HEAD := q\<rparr>) = Inr c
            \<longrightarrow> GIT_COMMIT c = commit)
    \<and> (\<forall>q c. generateBuildConstants (env\<lparr>git_rev_parse_HEAD := q\<rparr>) = Inr c
            \<longrightarrow> GIT_BRANCH c = branch)
    \<and> (\<forall>e. generateBuildConstants env = Inl e \<longrightarrow>
          (\<exists>version. getPackageVersion env = Inr version \<and> ToString_outcome version = Inl e))
    \<and> (\<forall>version. getPackageVersion env = Inr version \<and> ToString_outcome version = Inr ()
          \<longrightarrow> (\<exists>c. generateBuildConstants env = Inr c))"
proof -
  obtain commit where commit: "getGitCommit env = Inr commit"
    by (simp add: getGitCommit_cases)
  obtain branch where branch: "getGitBranch env = Inr branch"
    by (simp add: getGitBranch_cases)
  from getPackageVersion_returns obtain v where v: "getPackageVersion env = Inr v" by blast
  note gen = generateBuildConstants_cases [OF v commit branch]
  have missing: "\<not> git_dir_exists env \<longrightarrow> commit = js ''unknown'' \<and> branch = js ''unknown''"
    using commit branch by (auto simp add: getGitCommit_cases getGitBranch_cases)
  have failing_commit: "(\<exists>e. git_rev_parse_HEAD env = Inl e) \<longrightarrow> commit = js ''unknown''"
    using commit by (auto simp add: getGitCommit_cases)
  have failing_branch: "(\<exists>e. git_rev_parse_abbrev_ref_HEAD env = Inl e) \<longrightarrow> branch = js ''unknown''"
    using branch by (auto simp add: getGitBranch_cases)
  have fields: "\<forall>c. generateBuildConstants env = Inr c \<longrightarrow> GIT_COMMIT c = commit \<and> GIT_BRANCH c = branch"
    using gen by (auto split: sum.splits)
  have commit_alone: "GIT_COMMIT c = commit"
    if "generateBuildConstants (env\<lparr>git_rev_parse_abbrev_ref_HEAD := q\<rparr>) = Inr c" for q c
  proof -
    let ?env = "env\<lparr>git_rev_parse_abbrev_ref_HEAD := q\<rparr>"
    have c': "getGitCommit ?env = Inr commit"
      using commit by (simp add: git_lookups_independent)
    obtain b' where b': "getGitBranch ?env = Inr b'" by (simp add: getGitBranch_cases)
    have v': "getPackageVersion ?env = Inr v"
      using v by (simp add: getPackageVersion_git_independent)
    from generateBuildConstants_cases [OF v' c' b'] that show ?thesis
      by (auto split: sum.splits)
  qed
  have branch_alone: "GIT_BRANCH c = branch"
    if "generateBuildConstants (env\<lparr>git_rev_parse_HEAD := q\<rparr>) = Inr c" for q c
  proof -
    let ?env = "env\<lparr>git_rev_parse_HEAD := q\<rparr>"
    have b': "getGitBranch ?env = Inr branch"
      using branch by (simp add: git_lookups_independent)
    obtain c' where c': "getGitCommit ?env = Inr c'" by (simp add: getGitCommit_cases)
    have v': "getPackageVersion ?env = Inr v"
      using v by (simp add: getPackageVersion_git_independent)
    from generateBuildConstants_cases [OF v' c' b'] that show ?thesis
      by (auto split: sum.splits)
  qed
  have thrown: "\<forall>e. generateBuildConstants env = Inl e \<longrightarrow>
          (\<exists>version. getPackageVersion env = Inr version \<and> ToString_outcome version = Inl e)"
    using gen v by (auto split: sum.splits)
  have returned: "\<forall>version. getPackageVersion env = Inr version \<and> ToString_outcome version = Inr ()
          \<longrightarrow> (\<exists>c. generateBuildConstants env = Inr c)"
    using gen v by auto
  from commit branch missing failing_commit failing_branch fields commit_alone branch_alone
    thrown returned
  show ?thesis by blast
qed

theorem generateBuildConstants_git_unknown_witness:
  "\<not> git_dir_exists (example_env\<lparr>git_dir_exists := False\<rparr>)
   \<and> generateBuildConstants (example_env\<lparr>git_dir_exists := False\<rparr>) =
       Inr \<lparr> BUILD_VERSION = JString (js ''0.0.0''),
             BUILD_TIME = js ''November 3, 2026 at 07:22:00 AM UTC'',
             BUILD_TIMESTAMP = js ''2026-11-03T07:22:00.000Z'',
             GIT_COMMIT = js ''unknown'',
             GIT_BRANCH = js ''unknown'',
             COMPILER_VERSION = js ''1.2.0'' \<rparr>
   \<and> git_rev_parse_HEAD (example_env\<lparr>git_rev_parse_HEAD := Inl (JsError ''exit code 128'')\<rparr>)
        = Inl (JsError ''exit code 128'')
   \<and> getGitCommit (example_env\<lparr>git_rev_parse_HEAD := Inl (JsError ''exit code 128'')\<rparr>)
        = Inr (js ''unknown'')
   \<and> getGitBranch (example_env\<lparr>git_rev_parse_HEAD := Inl (JsError ''exit code 128'')\<rparr>)
        = getGitBranch example_env"
proof -
  let ?nogit = "example_env\<lparr>git_dir_exists := False\<rparr>"
  let ?failing = "example_env\<lparr>git_rev_parse_HEAD := Inl (JsError ''exit code 128'')\<rparr>"
  have h1: "\<not> git_dir_exists ?nogit" by simp
  have h2: "\<exists>e. git_rev_parse_HEAD ?failing = Inl e" by simp
  have v: "getPackageVersion ?nogit = Inr (JString (js ''0.0.0''))"
    by (simp add: getPackageVersion_def example_env_def catch_result_def bind_result_def
        or_else_def)
  have p: "ToString_outcome (JString (js ''0.0.0'')) = Inr ()"
    by (simp add: ToString_outcome_def)
  from generateBuildConstants_git_unknown [of ?nogit] h1 v p
  obtain c where c: "generateBuildConstants ?nogit = Inr c"
    and f: "GIT_COMMIT c = js ''unknown''" "GIT_BRANCH c = js ''unknown''"
    by blast
  from generateBuildConstants_cases [OF v getGitCommit_cases getGitBranch_cases] p c f
  have a: "generateBuildConstants ?nogit =
       Inr \<lparr> BUILD_VERSION = JString (js ''0.0.0''),
             BUILD_TIME = js ''November 3, 2026 at 07:22:00 AM UTC'',
             BUILD_TIMESTAMP = js ''2026-11-03T07:22:00.000Z'',
             GIT_COMMIT = js ''unknown'',
             GIT_BRANCH = js ''unknown'',
             COMPILER_VERSION = js ''1.2.0'' \<rparr>"
    by (simp add: example_env_def)
  from generateBuildConstants_git_unknown [of ?failing] h2
  have b: "getGitCommit ?failing = Inr (js ''unknown'')"
    by blast
  have d: "getGitBranch ?failing = getGitBranch example_env"
    by (simp add: git_lookups_independent)
  from h1 a b d show ?thesis by simp
qed

subsection \<open>Three runs of the generator\<close>

text \<open>
  A failing commit query leaves the branch as git printed it, trimmed.
\<close>

lemma failing_commit_keeps_branch:
  "generateBuildConstants (example_env\<lparr>git_rev_parse_HEAD := Inl (JsError ''exit code 128'')\<rparr>) =
     Inr \<lparr> BUILD_VERSION = JString (js ''0.0.0''),
           BUILD_TIME = js ''November 3, 2026 at 07:22:00 AM UTC'',
           BUILD_TIMESTAMP = js ''2026-11-03T07:22:00.000Z'',
           GIT_COMMIT = js ''unknown'',
           GIT_BRANCH = js ''main'',
           COMPILER_VERSION = js ''1.2.0'' \<rparr>"
proof -
  let ?env = "example_env\<lparr>git_rev_parse_HEAD := Inl (JsError ''exit code 128'')\<rparr>"
  have v: "getPackageVersion ?env = Inr (JString (js ''0.0.0''))"
    by (simp add: getPackageVersion_def example_env_def catch_result_def bind_result_def or_else_def)
  have p: "ToString_outcome (JString (js ''0.0.0'')) = Inr ()"
    by (simp add: ToString_outcome_def)
  from generateBuildConstants_cases [OF v getGitCommit_cases getGitBranch_cases] p show ?thesis
    by (simp add: example_env_def trim_def is_trim_space_def js_def)
qed

text \<open>
  A version that is present and truthy is returned as it is, a number included.
\<close>

lemma numeric_version_kept:
  assumes "readFileSync_package_json env = Inr contents"
    and "JSON_parse env contents = Inr (JObject [(js ''version'', JNumber (Finite 123))])"
  shows "getPackageVersion env = Inr (JNumber (Finite 123))"
  using assms
  by (simp add: getPackageVersion_def catch_result_def bind_result_def or_else_def)

text \<open>
  A version object with an own \<^verbatim>\<open>toString\<close> property cannot be printed: the generator
  throws after the lookups have returned.
\<close>

lemma unprintable_version_throws:
  assumes "readFileSync_package_json env = Inr contents"
    and "JSON_parse env contents =
           Inr (JObject [(js ''version'', JObject [(js ''toString'', JNull)])])"
  shows "generateBuildConstants env =
           Inl (JsError ''TypeError: cannot convert object to primitive value'')"
proof -
  from assms have v: "getPackageVersion env = Inr (JObject [(js ''toString'', JNull)])"
    by (simp add: getPackageVersion_def catch_result_def bind_result_def or_else_def)
  from generateBuildConstants_cases [OF v getGitCommit_cases getGitBranch_cases] show ?thesis
    by (simp add: ToString_outcome_def)
qed

end
